theory Spec2Isabelle
  imports Complex_Main "HOL-Library.Sublist"
begin

section \<open>Python text primitives\<close>

text \<open>
  A Python \<^verbatim>\<open>str\<close> is modelled as a \<^typ>\<open>string\<close>, a list of 8-bit characters; a
  \<^verbatim>\<open>bytes\<close> value is modelled the same way, so that \<^verbatim>\<open>s.encode()\<close> is the identity.
  The primitives below are exact on ASCII text: case folding touches the letters A to Z
  only, and the white space characters are the ASCII ones that \<^verbatim>\<open>str.isspace\<close> accepts.
\<close>

definition lower_char :: "char \<Rightarrow> char" where
  "lower_char c =
     (case map_of (zip ''ABCDEFGHIJKLMNOPQRSTUVWXYZ'' ''abcdefghijklmnopqrstuvwxyz'') c of
        Some d \<Rightarrow> d
      | None \<Rightarrow> c)"

definition lower :: "string \<Rightarrow> string" where
  "lower s = map lower_char s"

text \<open>\<^verbatim>\<open>sub in s\<close> on strings: \<open>sub\<close> occurs in \<open>s\<close> as a contiguous block.\<close>

fun py_in :: "string \<Rightarrow> string \<Rightarrow> bool" where
  "py_in sub [] = (sub = [])"
| "py_in sub (c # cs) = (prefix sub (c # cs) \<or> py_in sub cs)"

text \<open>\<^verbatim>\<open>any(w in text for w in words)\<close>.\<close>

definition any_in :: "string list \<Rightarrow> string \<Rightarrow> bool" where
  "any_in words text = list_ex (\<lambda>w. py_in w text) words"

definition isspace :: "char \<Rightarrow> bool" where
  "isspace c =
     (c \<in> set [CHR '' '', CHR 0x09, CHR 0x0A, CHR 0x0B, CHR 0x0C, CHR 0x0D,
                CHR 0x1C, CHR 0x1D, CHR 0x1E, CHR 0x1F])"

definition isdigit :: "char \<Rightarrow> bool" where
  "isdigit c = (c \<in> set ''0123456789'')"

definition strip :: "string \<Rightarrow> string" where
  "strip s = rev (dropWhile isspace (rev (dropWhile isspace s)))"

text \<open>\<^verbatim>\<open>sep.join(parts)\<close>.\<close>

fun join :: "string \<Rightarrow> string list \<Rightarrow> string" where
  "join sep [] = []"
| "join sep [x] = x"
| "join sep (x # y # ys) = x @ sep @ join sep (y # ys)"

text \<open>\<^verbatim>\<open>str(n)\<close> for an integer: its decimal digits.\<close>

fun nat_digits :: "nat \<Rightarrow> string" where
  "nat_digits n =
     (if n < 10 then [''0123456789'' ! n]
      else nat_digits (n div 10) @ [''0123456789'' ! (n mod 10)])"

definition str_int :: "int \<Rightarrow> string" where
  "str_int i = (if i < 0 then CHR ''-'' # nat_digits (nat (- i)) else nat_digits (nat i))"

section \<open>Regular expressions\<close>

text \<open>
  The patterns of the program use literals, character classes, the quantifiers
  \<^verbatim>\<open>?\<close>, \<^verbatim>\<open>*\<close>, \<^verbatim>\<open>+\<close> on a single character class, and at most one
  capture group. \<open>Mark\<close> stands for a parenthesis of the group. Quantifiers are greedy
  and the matcher backtracks from the longest repetition to the shortest, as
  \<^verbatim>\<open>re\<close> does. The flag \<open>ic\<close> is \<^verbatim>\<open>re.IGNORECASE\<close>.
\<close>

datatype cls = Chr char | Space | Digit | AnyOf "cls list" | NoneOf "cls list"

fun cls_match :: "bool \<Rightarrow> cls \<Rightarrow> char \<Rightarrow> bool" where
  "cls_match ic (Chr d) c = (if ic then lower_char c = lower_char d else c = d)"
| "cls_match ic Space c = isspace c"
| "cls_match ic Digit c = isdigit c"
| "cls_match ic (AnyOf ks) c = list_ex (\<lambda>k. cls_match ic k c) ks"
| "cls_match ic (NoneOf ks) c = (\<not> list_ex (\<lambda>k. cls_match ic k c) ks)"

datatype rx = One cls | Opt cls | Star cls | Plus cls | Mark

fun first_some :: "'a option list \<Rightarrow> 'a option" where
  "first_some [] = None"
| "first_some (None # xs) = first_some xs"
| "first_some (Some x # xs) = Some x"

text \<open>
  \<open>rx_match ic r s\<close> matches the pattern \<open>r\<close> at the start of \<open>s\<close>. It returns the
  text left after the match and, for each \<open>Mark\<close>, the text that was left when the mark
  was passed.
\<close>

fun rx_match :: "bool \<Rightarrow> rx list \<Rightarrow> string \<Rightarrow> (string list \<times> string) option" where
  "rx_match ic [] s = Some ([], s)"
| "rx_match ic (One k # r) s =
     (case s of
        [] \<Rightarrow> None
      | c # t \<Rightarrow> if cls_match ic k c then rx_match ic r t else None)"
| "rx_match ic (Opt k # r) s =
     first_some (map (\<lambda>n. rx_match ic r (drop n s))
        (rev [0 ..< Suc (min 1 (length (takeWhile (cls_match ic k) s)))]))"
| "rx_match ic (Star k # r) s =
     first_some (map (\<lambda>n. rx_match ic r (drop n s))
        (rev [0 ..< Suc (length (takeWhile (cls_match ic k) s))]))"
| "rx_match ic (Plus k # r) s =
     first_some (map (\<lambda>n. rx_match ic r (drop n s))
        (rev [1 ..< Suc (length (takeWhile (cls_match ic k) s))]))"
| "rx_match ic (Mark # r) s =
     (case rx_match ic r s of
        None \<Rightarrow> None
      | Some (ms, t) \<Rightarrow> Some (s # ms, t))"

definition lit :: "string \<Rightarrow> rx list" where
  "lit s = map (\<lambda>c. One (Chr c)) s"

text \<open>What \<^verbatim>\<open>findall\<close> reports for a match: the group if the pattern has one, the whole
  match otherwise.\<close>

definition matched_text :: "string \<Rightarrow> string list \<times> string \<Rightarrow> string" where
  "matched_text s m =
     (case fst m of
        [a, b] \<Rightarrow> take (length a - length b) a
      | _ \<Rightarrow> take (length s - length (snd m)) s)"

text \<open>\<^verbatim>\<open>re.findall(r, s)\<close>: the matches from left to right, without overlap. No pattern
  of the program matches the empty string.\<close>

function findall :: "bool \<Rightarrow> rx list \<Rightarrow> string \<Rightarrow> string list" where
  "findall ic r s =
     (case rx_match ic r s of
        None \<Rightarrow> (case s of [] \<Rightarrow> [] | c # t \<Rightarrow> findall ic r t)
      | Some m \<Rightarrow>
          matched_text s m #
            (if length (snd m) < length s then findall ic r (snd m)
             else (case s of [] \<Rightarrow> [] | c # t \<Rightarrow> findall ic r t)))"
  by pat_completeness auto
termination
  by (relation "measure (\<lambda>(ic, r, s). length s)") auto

declare findall.simps [simp del]

section \<open>Base64 and UTF-8\<close>

definition byte :: "char \<Rightarrow> nat" where
  "byte c = of_char c"

definition b64_alphabet :: string where
  "b64_alphabet = ''ABCDEFGHIJKLMNOPQRSTUVWXYZabcdefghijklmnopqrstuvwxyz0123456789+/''"

definition b64_char :: "nat \<Rightarrow> char" where
  "b64_char n = b64_alphabet ! n"

definition b64_value :: "char \<Rightarrow> nat option" where
  "b64_value c = map_of (zip b64_alphabet [0 ..< 64]) c"

text \<open>\<^verbatim>\<open>base64.b64encode(data).decode()\<close>.\<close>

fun b64encode :: "string \<Rightarrow> string" where
  "b64encode [] = []"
| "b64encode [a] =
     [b64_char (byte a div 4), b64_char (byte a mod 4 * 16), CHR ''='', CHR ''='']"
| "b64encode [a, b] =
     [b64_char (byte a div 4), b64_char (byte a mod 4 * 16 + byte b div 16),
      b64_char (byte b mod 16 * 4), CHR ''='']"
| "b64encode (a # b # c # rest) =
     [b64_char (byte a div 4), b64_char (byte a mod 4 * 16 + byte b div 16),
      b64_char (byte b mod 16 * 4 + byte c div 64), b64_char (byte c mod 64)]
     @ b64encode rest"

text \<open>
  \<^verbatim>\<open>binascii.a2b_base64\<close> as \<^verbatim>\<open>base64.b64decode\<close> calls it (not strict): characters
  outside the alphabet are skipped, a complete padding ends the input, and a group left
  incomplete at the end is an error (\<open>None\<close>).
\<close>

fun a2b_base64 :: "nat \<Rightarrow> nat \<Rightarrow> nat \<Rightarrow> string \<Rightarrow> string \<Rightarrow> string option" where
  "a2b_base64 quad_pos leftchar pads out [] = (if quad_pos \<noteq> 0 then None else Some out)"
| "a2b_base64 quad_pos leftchar pads out (ch # rest) =
     (if ch = CHR ''='' then
        (if quad_pos \<ge> 2 \<and> quad_pos + (pads + 1) \<ge> 4 then Some out
         else a2b_base64 quad_pos leftchar (if quad_pos \<ge> 2 then pads + 1 else pads) out rest)
      else
        (case b64_value ch of
           None \<Rightarrow> a2b_base64 quad_pos leftchar pads out rest
         | Some v \<Rightarrow>
             (if quad_pos = 0 then a2b_base64 1 v 0 out rest
              else if quad_pos = 1 then
                a2b_base64 2 (v mod 16) 0 (out @ [char_of (leftchar * 4 + v div 16)]) rest
              else if quad_pos = 2 then
                a2b_base64 3 (v mod 4) 0 (out @ [char_of (leftchar * 16 + v div 4)]) rest
              else a2b_base64 0 0 0 (out @ [char_of (leftchar * 64 + v)]) rest)))"

text \<open>\<^verbatim>\<open>base64.b64decode(s)\<close> for a string \<open>s\<close>: a character that is not ASCII raises.\<close>

definition b64decode :: "string \<Rightarrow> string option" where
  "b64decode s = (if list_ex (\<lambda>c. byte c \<ge> 128) s then None else a2b_base64 0 0 0 [] s)"

definition utf8_cont :: "char \<Rightarrow> bool" where
  "utf8_cont c = (128 \<le> byte c \<and> byte c \<le> 191)"

text \<open>Whether \<^verbatim>\<open>data.decode('utf-8')\<close> succeeds.\<close>

fun utf8_valid :: "string \<Rightarrow> bool" where
  "utf8_valid [] = True"
| "utf8_valid (a # rest) =
     (if byte a < 128 then utf8_valid rest
      else if 194 \<le> byte a \<and> byte a \<le> 223 then
        (case rest of
           b # rest' \<Rightarrow> utf8_cont b \<and> utf8_valid rest'
         | _ \<Rightarrow> False)
      else if 224 \<le> byte a \<and> byte a \<le> 239 then
        (case rest of
           b # c # rest' \<Rightarrow>
             utf8_cont b \<and> utf8_cont c
             \<and> (byte a = 224 \<longrightarrow> 160 \<le> byte b)
             \<and> (byte a = 237 \<longrightarrow> byte b \<le> 159)
             \<and> utf8_valid rest'
         | _ \<Rightarrow> False)
      else if 240 \<le> byte a \<and> byte a \<le> 244 then
        (case rest of
           b # c # d # rest' \<Rightarrow>
             utf8_cont b \<and> utf8_cont c \<and> utf8_cont d
             \<and> (byte a = 240 \<longrightarrow> 144 \<le> byte b)
             \<and> (byte a = 244 \<longrightarrow> byte b \<le> 143)
             \<and> utf8_valid rest'
         | _ \<Rightarrow> False)
      else False)"

section \<open>Python values\<close>

text \<open>
  A finite \<^verbatim>\<open>float\<close> is represented by the rational number it denotes; \<open>Finite 0\<close> is
  \<^verbatim>\<open>0.0\<close> and \<open>NegZero\<close> is \<^verbatim>\<open>-0.0\<close>.
\<close>

datatype pyfloat = Finite rat | NegZero | PosInf | NegInf | NaN

datatype pyval =
    PNone
  | PBool bool
  | PInt int
  | PFloat pyfloat
  | PStr string
  | PList "pyval list"
  | PDict "(string \<times> pyval) list"

text \<open>\<^verbatim>\<open>x.is_integer()\<close> and \<^verbatim>\<open>int(x)\<close> for a float \<open>x\<close>; \<^verbatim>\<open>int\<close> is only called on
  floats that are integers.\<close>

fun float_is_integer :: "pyfloat \<Rightarrow> bool" where
  "float_is_integer (Finite q) = (of_int \<lfloor>q\<rfloor> = q)"
| "float_is_integer NegZero = True"
| "float_is_integer _ = False"

fun int_of_float :: "pyfloat \<Rightarrow> int" where
  "int_of_float (Finite q) = (if q < 0 then - \<lfloor>- q\<rfloor> else \<lfloor>q\<rfloor>)"
| "int_of_float _ = 0"

text \<open>Truth value of an object (\<^verbatim>\<open>bool(x)\<close>, \<^verbatim>\<open>if x\<close>, \<^verbatim>\<open>not x\<close>).\<close>

fun py_bool :: "pyval \<Rightarrow> bool" where
  "py_bool PNone = False"
| "py_bool (PBool b) = b"
| "py_bool (PInt i) = (i \<noteq> 0)"
| "py_bool (PFloat (Finite q)) = (q \<noteq> 0)"
| "py_bool (PFloat NegZero) = False"
| "py_bool (PFloat _) = True"
| "py_bool (PStr s) = (s \<noteq> [])"
| "py_bool (PList xs) = (xs \<noteq> [])"
| "py_bool (PDict kvs) = (kvs \<noteq> [])"

text \<open>Truth value of a string or an optional string.\<close>

definition str_truthy :: "string option \<Rightarrow> bool" where
  "str_truthy u = (case u of None \<Rightarrow> False | Some s \<Rightarrow> s \<noteq> [])"

section \<open>The data model (\<^verbatim>\<open>app/types.py\<close>)\<close>

datatype AnswerType = NUMBER | STRING | BOOLEAN | JSON | BASE64_FILE

record QuizRequest =
  req_email :: string
  req_secret :: string
  req_url :: string

record QuizResponse =
  correct :: bool
  url :: "string option"
  reason :: "string option"

record AnswerSubmission =
  sub_email :: string
  sub_secret :: string
  sub_url :: string
  sub_answer :: pyval

record ParsedQuestion =
  pq_question_text :: string
  pq_submit_url :: string
  pq_resources :: "string list"
  pq_expected_type :: AnswerType
  pq_instructions :: "string option"

record ProcessingResult =
  pr_content :: string

record LLMReasoningRequest =
  llm_question :: string
  llm_context :: string
  llm_expected_type :: AnswerType
  llm_attempt_number :: int

record LLMReasoningResponse =
  llm_reasoning :: string
  llm_answer :: pyval
  llm_confidence :: real

text \<open>\<^verbatim>\<open>expected_type.value\<close>.\<close>

fun type_value :: "AnswerType \<Rightarrow> string" where
  "type_value NUMBER = ''number''"
| "type_value STRING = ''string''"
| "type_value BOOLEAN = ''boolean''"
| "type_value JSON = ''json''"
| "type_value BASE64_FILE = ''base64_file''"

datatype py_exception = PyException (message: string)

section \<open>Library functions taken as parameters\<close>

text \<open>
  What the program gets from the Python runtime and its libraries, and is not text
  processing modelled above. \<open>None\<close> stands for a raised exception.
  \<^item> \<open>repr_float\<close>, \<open>repr_str\<close>: \<^verbatim>\<open>repr\<close> of a float and of a string;
  \<^item> \<open>float_of_str\<close>, \<open>int_of_str\<close>: \<^verbatim>\<open>float(s)\<close> and \<^verbatim>\<open>int(s)\<close>;
  \<^item> \<open>json_loads\<close>: \<^verbatim>\<open>json.loads(s)\<close>;
  \<^item> \<open>json_dumps\<close>: \<^verbatim>\<open>json.dumps(payload)\<close>, whose result is ASCII;
  \<^item> \<open>str_overhead\<close>: what \<^verbatim>\<open>sys.getsizeof\<close> adds to the length of an ASCII string;
  \<^item> \<open>int_has_is_integer\<close>: whether \<^verbatim>\<open>int\<close> has the method \<^verbatim>\<open>is_integer\<close>;
  \<^item> \<open>quiz_response\<close>: \<^verbatim>\<open>json.loads\<close> of a response body followed by
    \<^verbatim>\<open>QuizResponse(**data)\<close>.
\<close>

datatype body_parse = JSONDecodeError | Invalid py_exception | Parsed QuizResponse

record py_runtime =
  repr_float :: "pyfloat \<Rightarrow> string"
  repr_str :: "string \<Rightarrow> string"
  float_of_str :: "string \<Rightarrow> pyfloat option"
  int_of_str :: "string \<Rightarrow> int option"
  json_loads :: "string \<Rightarrow> pyval option"
  json_dumps :: "AnswerSubmission \<Rightarrow> string"
  str_overhead :: nat
  int_has_is_integer :: bool
  quiz_response :: "string \<Rightarrow> body_parse"

text \<open>\<^verbatim>\<open>repr(x)\<close> and \<^verbatim>\<open>str(x)\<close>.\<close>

fun py_repr :: "py_runtime \<Rightarrow> pyval \<Rightarrow> string" where
  "py_repr rt PNone = ''None''"
| "py_repr rt (PBool b) = (if b then ''True'' else ''False'')"
| "py_repr rt (PInt i) = str_int i"
| "py_repr rt (PFloat f) = repr_float rt f"
| "py_repr rt (PStr s) = repr_str rt s"
| "py_repr rt (PList xs) = ''['' @ join '', '' (map (py_repr rt) xs) @ '']''"
| "py_repr rt (PDict kvs) =
     ''{'' @ join '', '' (map (\<lambda>kv. repr_str rt (fst kv) @ '': '' @ py_repr rt (snd kv)) kvs)
     @ ''}''"

fun py_str :: "py_runtime \<Rightarrow> pyval \<Rightarrow> string" where
  "py_str rt (PStr s) = s"
| "py_str rt v = py_repr rt v"

text \<open>\<^verbatim>\<open>repr\<close> of a dictionary of strings, as an f-string prints the request headers.\<close>

definition repr_headers :: "py_runtime \<Rightarrow> (string \<times> string) list \<Rightarrow> string" where
  "repr_headers rt hs =
     ''{'' @ join '', '' (map (\<lambda>kv. repr_str rt (fst kv) @ '': '' @ repr_str rt (snd kv)) hs)
     @ ''}''"

text \<open>\<^verbatim>\<open>d[k] = v\<close> on a dictionary, which keeps the order of first insertion.\<close>

fun dict_set :: "('k \<times> 'v) list \<Rightarrow> 'k \<Rightarrow> 'v \<Rightarrow> ('k \<times> 'v) list" where
  "dict_set [] k v = [(k, v)]"
| "dict_set (p # ps) k v = (if fst p = k then (k, v) # ps else p # dict_set ps k v)"

section \<open>The question extractor (\<^verbatim>\<open>app/parser.py\<close>)\<close>

text \<open>The dictionary that the two page readers return.\<close>

record page_content =
  html :: string
  visible_text :: string
  scripts :: string

definition quote :: string where
  "quote = [CHR 0x27]"

text \<open>\<^verbatim>\<open>QuizParser._determine_answer_type\<close>.\<close>

definition determine_answer_type :: "string \<Rightarrow> AnswerType" where
  "determine_answer_type text =
     (let text_lower = lower text in
      if py_in ''is 97 a prime number'' text_lower
         \<and> py_in (''answer with 'yes' or 'no'' @ quote) text_lower
      then STRING
      else if any_in [''sum'', ''count'', ''total'', ''number'', ''how many'', ''average'',
                      ''mean'', ''maximum'', ''max'', ''minimum'', ''min'', ''sequence'',
                      ''next number'', ''compute''] text_lower
      then NUMBER
      else if any_in [''true'', ''false'', ''whether'', ''is it'', ''answer with'',
                      ''yes or no'', ''yes/no'', ''prime number''] text_lower
      then STRING
      else if any_in [''json'', ''object'', ''array'', ''dictionary''] text_lower
      then JSON
      else if any_in [''file'', ''attachment'', ''upload'', ''base64''] text_lower
      then BASE64_FILE
      else STRING)"

text \<open>
  The patterns of \<^verbatim>\<open>extract_api_headers\<close>, in the order of the source:
  \<^verbatim>\<open>Authorization:\s*([^\n]+)\<close>, \<^verbatim>\<open>Use Authorization:\s*([^\n]+)\<close>,
  \<^verbatim>\<open>Bearer\s+([^\s\n]+)\<close>, \<^verbatim>\<open>Authorization\s+header:\s*([^\n]+)\<close>;
  \<^verbatim>\<open>X-API-Key:\s*([^\n]+)\<close>, \<^verbatim>\<open>API[-\s]?key:\s*([^\n]+)\<close>,
  \<^verbatim>\<open>Use API key:\s*([^\n]+)\<close>; \<^verbatim>\<open>Content-Type:\s*([^\n]+)\<close>.
\<close>

definition rest_of_line :: "rx list" where
  "rest_of_line = [Star Space, Mark, Plus (NoneOf [Chr (CHR 0x0A)]), Mark]"

definition header_patterns :: "(string \<times> rx list list) list" where
  "header_patterns =
     [(''Authorization'',
        [lit ''Authorization:'' @ rest_of_line,
         lit ''Use Authorization:'' @ rest_of_line,
         lit ''Bearer'' @ [Plus Space, Mark, Plus (NoneOf [Space, Chr (CHR 0x0A)]), Mark],
         lit ''Authorization'' @ [Plus Space] @ lit ''header:'' @ rest_of_line]),
      (''X-API-Key'',
        [lit ''X-API-Key:'' @ rest_of_line,
         lit ''API'' @ [Opt (AnyOf [Chr CHR ''-'', Space])] @ lit ''key:'' @ rest_of_line,
         lit ''Use API key:'' @ rest_of_line]),
      (''Content-Type'',
        [lit ''Content-Type:'' @ rest_of_line])]"

text \<open>The value stored for a match.\<close>

definition header_value :: "string \<Rightarrow> string \<Rightarrow> string" where
  "header_value header_name match =
     (if header_name = ''Authorization'' \<and> \<not> py_in ''bearer'' (lower match)
      then ''Bearer '' @ strip match
      else strip match)"

text \<open>
  The body of the loop over one header's patterns. The loop over the matches stores the
  first match and leaves with \<^verbatim>\<open>break\<close>, which ends the loop over the matches only:
  the loop over the patterns goes on to the next pattern.
\<close>

definition scan_pattern ::
  "string \<Rightarrow> string \<Rightarrow> rx list \<Rightarrow> (string \<times> string) list \<Rightarrow> (string \<times> string) list" where
  "scan_pattern text header_name pattern headers =
     (case findall True pattern text of
        [] \<Rightarrow> headers
      | match # _ \<Rightarrow> dict_set headers header_name (header_value header_name match))"

definition extract_api_headers :: "string \<Rightarrow> (string \<times> string) list" where
  "extract_api_headers text =
     fold (\<lambda>(header_name, pattern_list) headers.
             fold (scan_pattern text header_name) pattern_list headers)
       header_patterns []"

text \<open>The other extraction functions of the parser are parameters of the model.\<close>

record parser_fns =
  extract_text_from_html :: "string \<Rightarrow> string"
  extract_base64_content :: "string \<Rightarrow> string"
  extract_submit_url :: "string \<Rightarrow> string \<Rightarrow> string \<Rightarrow> string"
  extract_resources :: "string \<Rightarrow> string \<Rightarrow> string list"
  extract_question_text :: "string \<Rightarrow> string"

definition combine_text_sources :: "parser_fns \<Rightarrow> page_content \<Rightarrow> string" where
  "combine_text_sources P page =
     join ''\<newline>''
       ((if visible_text page \<noteq> [] then [visible_text page] else [])
        @ (if html page \<noteq> [] then [extract_text_from_html P (html page)] else []))"

definition parse_page_content :: "parser_fns \<Rightarrow> string \<Rightarrow> page_content \<Rightarrow> ParsedQuestion" where
  "parse_page_content P base_url page =
     (let base64_content = extract_base64_content P (scripts page);
          full_text =
            (if base64_content \<noteq> []
             then combine_text_sources P page
                  @ ''\<newline>\<newline>Decoded Instructions:\<newline>'' @ base64_content
             else combine_text_sources P page)
      in \<lparr> pq_question_text = extract_question_text P full_text,
           pq_submit_url = extract_submit_url P base_url full_text (html page),
           pq_resources = extract_resources P full_text (html page),
           pq_expected_type = determine_answer_type full_text,
           pq_instructions = (if base64_content \<noteq> [] then Some base64_content else None) \<rparr>)"

section \<open>The outside world\<close>

text \<open>
  Every call that leaves the process is an operation on a world state \<open>'w\<close>: it returns
  a value or raises (\<open>Inl\<close>), and gives the next world state. The model records each
  such call as an event, in the order of the calls.
\<close>

record gen_response =
  gen_text :: string
  not_blocked :: bool

record http_response =
  status :: int
  body :: string

datatype event =
    BrowserGet string
  | FallbackGet string
  | ResourceGet string "(string \<times> string) list"
  | Generate string string
  | FallbackReasoning
  | Post string AnswerSubmission
  | Sleep real
  | Cleanup

record 'w env =
  clock :: "'w \<Rightarrow> real"
  browser_get_page_content :: "string \<Rightarrow> 'w \<Rightarrow> (py_exception + page_content) \<times> 'w"
  fallback_get_page_content :: "string \<Rightarrow> 'w \<Rightarrow> (py_exception + page_content) \<times> 'w"
  fetch_resource ::
    "string \<Rightarrow> (string \<times> string) list \<Rightarrow> 'w \<Rightarrow> (py_exception + ProcessingResult) \<times> 'w"
  generate_content :: "string \<Rightarrow> string \<Rightarrow> 'w \<Rightarrow> (py_exception + gen_response) \<times> 'w"
  session_post :: "string \<Rightarrow> AnswerSubmission \<Rightarrow> 'w \<Rightarrow> (py_exception + http_response) \<times> 'w"
  asyncio_sleep :: "real \<Rightarrow> 'w \<Rightarrow> 'w"
  close_all :: "'w \<Rightarrow> 'w"

text \<open>\<open>emit evs r\<close> puts the events \<open>evs\<close> before those of the computation \<open>r\<close>.\<close>

definition emit :: "event list \<Rightarrow> 'a \<times> event list \<times> 'w \<Rightarrow> 'a \<times> event list \<times> 'w" where
  "emit evs r = (case r of (x, evs', w) \<Rightarrow> (x, evs @ evs', w))"

section \<open>The retry decorator (\<^verbatim>\<open>app/utils.py\<close>)\<close>

text \<open>
  \<^verbatim>\<open>async_retry(max_attempts, delay, backoff)\<close> applied to \<open>func\<close>. The first argument
  of \<open>retry_loop\<close> that decreases counts the iterations of \<^verbatim>\<open>range(max_attempts)\<close>
  still to run, \<open>attempt\<close> is the loop variable.
\<close>

fun retry_loop ::
  "'w env \<Rightarrow> ('w \<Rightarrow> (py_exception + 'a) \<times> event list \<times> 'w) \<Rightarrow> nat \<Rightarrow> real \<Rightarrow>
   nat \<Rightarrow> nat \<Rightarrow> real \<Rightarrow> py_exception option \<Rightarrow> 'w \<Rightarrow> (py_exception + 'a) \<times> event list \<times> 'w" where
  "retry_loop env func max_attempts backoff 0 attempt current_delay last_exception w =
     (case last_exception of
        None \<Rightarrow> (Inl (PyException ''exceptions must derive from BaseException''), [], w)
      | Some e \<Rightarrow> (Inl e, [], w))"
| "retry_loop env func max_attempts backoff (Suc n) attempt current_delay last_exception w =
     (case func w of
        (Inr x, evs, w1) \<Rightarrow> (Inr x, evs, w1)
      | (Inl e, evs, w1) \<Rightarrow>
          if int attempt < int max_attempts - 1
          then emit (evs @ [Sleep current_delay])
                 (retry_loop env func max_attempts backoff n (attempt + 1)
                    (current_delay * backoff) (Some e) (asyncio_sleep env current_delay w1))
          else emit evs
                 (retry_loop env func max_attempts backoff n (attempt + 1)
                    current_delay (Some e) w1))"

definition async_retry ::
  "'w env \<Rightarrow> nat \<Rightarrow> real \<Rightarrow> real \<Rightarrow> ('w \<Rightarrow> (py_exception + 'a) \<times> event list \<times> 'w) \<Rightarrow>
   'w \<Rightarrow> (py_exception + 'a) \<times> event list \<times> 'w" where
  "async_retry env max_attempts delay backoff func w =
     retry_loop env func max_attempts backoff max_attempts 0 delay None w"

section \<open>The answer submitter (\<^verbatim>\<open>app/submitter.py\<close>)\<close>

definition get_payload_size :: "py_runtime \<Rightarrow> AnswerSubmission \<Rightarrow> nat" where
  "get_payload_size rt payload = str_overhead rt + length (json_dumps rt payload)"

definition validate_payload_size :: "py_runtime \<Rightarrow> AnswerSubmission \<Rightarrow> bool" where
  "validate_payload_size rt payload = (get_payload_size rt payload < 1000000)"

text \<open>
  The function that the decorator wraps. The payload has the four fields of the
  submission. Everything after the session is obtained runs inside
  \<^verbatim>\<open>try\<close> ... \<^verbatim>\<open>except Exception\<close>, whose handler returns a verdict.
\<close>

definition submit_answer_body ::
  "'w env \<Rightarrow> py_runtime \<Rightarrow> AnswerSubmission \<Rightarrow> string \<Rightarrow> 'w \<Rightarrow>
   (py_exception + QuizResponse) \<times> event list \<times> 'w" where
  "submit_answer_body env rt submission submit_url w =
     (if \<not> validate_payload_size rt submission
      then (Inr \<lparr> correct = False, url = None,
                  reason = Some ''Payload size exceeds 1MB limit'' \<rparr>, [], w)
      else
        (case session_post env submit_url submission w of
           (Inl e, w1) \<Rightarrow>
             (Inr \<lparr> correct = False, url = None, reason = Some (message e) \<rparr>,
              [Post submit_url submission], w1)
         | (Inr response, w1) \<Rightarrow>
             (Inr (if status response = 200
                   then (case quiz_response rt (body response) of
                           Parsed r \<Rightarrow> r
                         | JSONDecodeError \<Rightarrow>
                             \<lparr> correct = py_in ''correct'' (lower (body response)),
                               url = None, reason = Some (body response) \<rparr>
                         | Invalid e \<Rightarrow>
                             \<lparr> correct = False, url = None, reason = Some (message e) \<rparr>)
                   else \<lparr> correct = False, url = None,
                          reason = Some (''HTTP '' @ str_int (status response) @ '': ''
                                         @ body response) \<rparr>),
              [Post submit_url submission], w1)))"

text \<open>\<^verbatim>\<open>AnswerSubmitter.submit_answer\<close>, under \<^verbatim>\<open>@async_retry(max_attempts=3, delay=1)\<close>;
  the decorator's \<^verbatim>\<open>backoff\<close> keeps its default, 2.\<close>

definition submit_answer ::
  "'w env \<Rightarrow> py_runtime \<Rightarrow> AnswerSubmission \<Rightarrow> string \<Rightarrow> 'w \<Rightarrow>
   (py_exception + QuizResponse) \<times> event list \<times> 'w" where
  "submit_answer env rt submission submit_url =
     async_retry env 3 1 2 (submit_answer_body env rt submission submit_url)"

section \<open>The reasoning engine (\<^verbatim>\<open>app/llm.py\<close>)\<close>

text \<open>
  An entry of \<^verbatim>\<open>self.models\<close> is a model with its name and its role; the model object
  is identified by its name.
\<close>

type_synonym model = "string \<times> string"

text \<open>The slices \<^verbatim>\<open>models[:2]\<close>, \<^verbatim>\<open>models[1:3]\<close> and \<^verbatim>\<open>models[2:]\<close>.\<close>

definition models_to_try :: "'m list \<Rightarrow> int \<Rightarrow> 'm list" where
  "models_to_try models attempt =
     (if attempt = 0 then take 2 models
      else if attempt = 1 then drop 1 (take 3 models)
      else drop 2 models)"

definition number_rx :: "rx list" where
  "number_rx = [Opt (Chr CHR ''-''), Plus Digit, Opt (Chr CHR ''.''), Star Digit]"

definition yes_no_phrases :: "string list" where
  "yes_no_phrases =
     [''answer 'yes' or 'no'' @ quote, ''answer with 'yes'' @ quote, ''yes or no'', ''yes/no'']"

definition type_instruction :: "bool \<Rightarrow> AnswerType \<Rightarrow> string" where
  "type_instruction yes_no t =
     (case t of
        NUMBER \<Rightarrow>
          ''You MUST respond with ONLY a number. No explanation, no text, just the numerical answer.''
      | STRING \<Rightarrow>
          (if yes_no then ''You MUST respond with ONLY 'yes' or 'no'. No other text.''
           else ''You MUST respond with ONLY a string answer. No additional text.'')
      | BOOLEAN \<Rightarrow> ''You MUST respond with ONLY 'true' or 'false'. No other text.''
      | JSON \<Rightarrow> ''You MUST respond with valid JSON only. No other text.''
      | BASE64_FILE \<Rightarrow>
          ''You MUST respond with the file content or instructions for file generation.'')"

definition additional_instruction :: "string \<Rightarrow> string" where
  "additional_instruction question_lower =
     (if any_in yes_no_phrases question_lower then
        ''You MUST respond with ONLY 'yes' or 'no'. Do not use numbers, do not use true/false.''
      else if py_in ''table'' question_lower \<and> py_in ''sum'' question_lower then
        ''Extract the numbers from the table and compute the sum. Return ONLY the total sum as a number.''
      else if py_in ''table'' question_lower then
        ''Extract the relevant data from the table. Return ONLY the answer.''
      else if py_in ''json'' question_lower \<and> py_in ''sum'' question_lower then
        ''Extract the numbers from the JSON and compute the sum. Return ONLY the number.''
      else if py_in ''json'' question_lower \<and> py_in ''max'' question_lower then
        ''Extract the numbers from the JSON and find the maximum value. Return ONLY the number.''
      else if py_in ''json'' question_lower \<and> py_in ''average'' question_lower then
        ''Extract the numbers from the JSON and compute the average. Return ONLY the number.''
      else if py_in ''pdf'' question_lower then
        ''Extract the number from the PDF text as described. Return ONLY the number.''
      else [])"

definition attempt_context :: "int \<Rightarrow> string" where
  "attempt_context attempt =
     (if attempt > 0 then
        ''\<newline>NOTE: This is attempt '' @ str_int (attempt + 1)
        @ ''. Previous attempts were incorrect. Please reconsider carefully and double-check your reasoning.''
      else [])"

definition build_prompt :: "LLMReasoningRequest \<Rightarrow> int \<Rightarrow> string" where
  "build_prompt request attempt =
     (let question_lower = lower (llm_question request);
          yes_no = any_in yes_no_phrases question_lower
      in join ''\<newline>''
           ([] # map (\<lambda>l. ''        '' @ l)
              [''QUESTION: '' @ llm_question request,
               [],
               ''CONTEXT AND DATA: '' @ llm_context request,
               [],
               ''INSTRUCTIONS:'',
               ''1. Analyze the question and available data carefully'',
               ''2. Perform any necessary calculations or reasoning'',
               ''3. '' @ type_instruction yes_no (llm_expected_type request),
               ''4. '' @ additional_instruction question_lower,
               ''5. '' @ attempt_context attempt,
               ''6. Be precise and accurate'',
               [],
               ''IMPORTANT: Your response must be ONLY the answer in the required format. No additional text, no explanations, no markdown.'',
               [],
               ''Required output type: '' @ type_value (llm_expected_type request),
               [],
               ''ANSWER:'',
               []]))"

text \<open>What both number conversions do with the float they parsed.\<close>

definition number_of_float :: "pyfloat \<Rightarrow> pyval" where
  "number_of_float num = (if float_is_integer num then PInt (int_of_float num) else PFloat num)"

definition truthy_words :: "string list" where
  "truthy_words = [''true'', ''yes'', ''1'', ''correct'']"

text \<open>
  \<^verbatim>\<open>LLMEngine._parse_llm_response\<close>. The module does not import \<^verbatim>\<open>re\<close>; the function
  imports it inside the branch for numbers, which makes \<^verbatim>\<open>re\<close> a local name of the
  function. In the branch for JSON that name is not bound, the call
  \<^verbatim>\<open>re.search\<close> raises, and the handler of the branch gives the error object.
\<close>

definition parse_llm_response :: "py_runtime \<Rightarrow> string \<Rightarrow> AnswerType \<Rightarrow> LLMReasoningResponse" where
  "parse_llm_response rt response_text expected_type =
     (let cleaned_text = strip response_text;
          fallback = \<lparr> llm_reasoning = response_text, llm_answer = PStr cleaned_text,
                       llm_confidence = 0.5 \<rparr>;
          ok = (\<lambda>a. \<lparr> llm_reasoning = response_text, llm_answer = a, llm_confidence = 0.8 \<rparr>)
      in case expected_type of
           NUMBER \<Rightarrow>
             (case findall False number_rx cleaned_text of
                [] \<Rightarrow> ok (PInt 0)
              | n # _ \<Rightarrow>
                  (case float_of_str rt n of
                     None \<Rightarrow> fallback
                   | Some num \<Rightarrow> ok (number_of_float num)))
         | BOOLEAN \<Rightarrow> ok (PBool (lower cleaned_text \<in> set truthy_words))
         | JSON \<Rightarrow> ok (PDict [(''error'', PStr ''Invalid JSON format'')])
         | BASE64_FILE \<Rightarrow> ok (PStr cleaned_text)
         | STRING \<Rightarrow> ok (PStr cleaned_text))"

text \<open>\<^verbatim>\<open>LLMEngine._calculate_confidence\<close>, in exact arithmetic.\<close>

definition calculate_confidence :: "gen_response \<Rightarrow> pyval \<Rightarrow> real" where
  "calculate_confidence response a =
     (let c1 = 0.7 + (if not_blocked response then 0.2 else 0);
          c2 = c1 - (if \<not> py_bool a \<or> (case a of PStr s \<Rightarrow> length (strip s) < 2 | _ \<Rightarrow> False)
                     then 0.3 else 0)
      in max 0.1 (min 1.0 c2))"

text \<open>\<^verbatim>\<open>int(s)\<close> for a string of digits.\<close>

definition int_of_digits :: "string \<Rightarrow> int" where
  "int_of_digits s = fold (\<lambda>c n. 10 * n + (int (byte c) - 48)) s 0"

definition fallback_reasoning :: "LLMReasoningRequest \<Rightarrow> LLMReasoningResponse" where
  "fallback_reasoning request =
     (let question_lower = lower (llm_question request);
          default = \<lparr> llm_reasoning = ''Fallback: All models failed, using default response'',
                      llm_answer = (if llm_expected_type request = STRING then PStr ''Unknown''
                                    else PInt 0),
                      llm_confidence = 0.1 \<rparr>
      in if py_in ''sum'' question_lower \<and> py_in ''value'' question_lower then
           (case findall False [Plus Digit] (llm_context request) of
              [] \<Rightarrow> default
            | n # ns \<Rightarrow>
                \<lparr> llm_reasoning = ''Fallback: Summed all numbers found in context'',
                  llm_answer = PInt (sum_list (map int_of_digits (n # ns))),
                  llm_confidence = 0.3 \<rparr>)
         else default)"

text \<open>
  The loop over \<^verbatim>\<open>models_to_try\<close>. A model that answers ends the loop; the last
  model of the window, when it fails, hands over to the heuristic; an empty window
  leaves the loop at once and the function returns nothing (\<open>None\<close>).
\<close>

fun try_models ::
  "'w env \<Rightarrow> py_runtime \<Rightarrow> string \<Rightarrow> LLMReasoningRequest \<Rightarrow> model list \<Rightarrow> 'w \<Rightarrow>
   LLMReasoningResponse option \<times> event list \<times> 'w" where
  "try_models env rt prompt request [] w = (None, [], w)"
| "try_models env rt prompt request (m # rest) w =
     (case generate_content env (fst m) prompt w of
        (Inr response, w1) \<Rightarrow>
          (let result = parse_llm_response rt (gen_text response) (llm_expected_type request)
           in (Some (result\<lparr> llm_confidence :=
                               calculate_confidence response (llm_answer result) \<rparr>),
               [Generate (fst m) prompt], w1))
      | (Inl e, w1) \<Rightarrow>
          if rest = []
          then (Some (fallback_reasoning request),
                [Generate (fst m) prompt, FallbackReasoning], w1)
          else emit [Generate (fst m) prompt] (try_models env rt prompt request rest w1))"

definition reason_about_question_body ::
  "'w env \<Rightarrow> py_runtime \<Rightarrow> model list \<Rightarrow> LLMReasoningRequest \<Rightarrow> int \<Rightarrow> 'w \<Rightarrow>
   (py_exception + LLMReasoningResponse option) \<times> event list \<times> 'w" where
  "reason_about_question_body env rt models request attempt w =
     (case try_models env rt (build_prompt request attempt) request
             (models_to_try models attempt) w of
        (r, evs, w1) \<Rightarrow> (Inr r, evs, w1))"

text \<open>\<^verbatim>\<open>LLMEngine.reason_about_question\<close>, under
  \<^verbatim>\<open>@async_retry(max_attempts=3, delay=1)\<close>.\<close>

definition reason_about_question ::
  "'w env \<Rightarrow> py_runtime \<Rightarrow> model list \<Rightarrow> LLMReasoningRequest \<Rightarrow> int \<Rightarrow> 'w \<Rightarrow>
   (py_exception + LLMReasoningResponse option) \<times> event list \<times> 'w" where
  "reason_about_question env rt models request attempt =
     async_retry env 3 1 2 (reason_about_question_body env rt models request attempt)"

section \<open>The solve loop (\<^verbatim>\<open>app/solver.py\<close>)\<close>

subsection \<open>Coercion of an answer to the expected kind\<close>

text \<open>The test of the branch for files: the answer decodes as base64 to UTF-8 text that
  contains "hello world" in any case.\<close>

definition decodes_to_hello_world :: "string \<Rightarrow> bool" where
  "decodes_to_hello_world s =
     (case b64decode s of
        None \<Rightarrow> False
      | Some decoded \<Rightarrow> utf8_valid decoded \<and> py_in ''hello world'' (lower decoded))"

text \<open>The \<^verbatim>\<open>try\<close> block of \<^verbatim>\<open>QuizSolver._enforce_answer_type\<close>; \<open>Inl\<close> is an exception
  that reaches the handler of the method.\<close>

definition enforce_try :: "py_runtime \<Rightarrow> pyval \<Rightarrow> AnswerType \<Rightarrow> py_exception + pyval" where
  "enforce_try rt a expected_type =
     (case expected_type of
        NUMBER \<Rightarrow>
          (case a of
             PInt i \<Rightarrow> Inr a
           | PBool b \<Rightarrow> Inr a
           | PFloat f \<Rightarrow> Inr (if float_is_integer f then PInt (int_of_float f) else a)
           | PStr s \<Rightarrow>
               (case findall False number_rx s of
                  [] \<Rightarrow> Inr (PInt 0)
                | n # _ \<Rightarrow>
                    (case float_of_str rt n of
                       None \<Rightarrow> Inl (PyException ''could not convert string to float'')
                     | Some num \<Rightarrow> Inr (number_of_float num)))
           | _ \<Rightarrow>
               if py_bool a
               then Inl (PyException ''float() argument must be a string or a real number'')
               else if int_has_is_integer rt then Inr (PInt 0)
               else Inl (PyException ''int object has no attribute is_integer''))
      | BASE64_FILE \<Rightarrow>
          (case a of
             PStr s \<Rightarrow>
               if decodes_to_hello_world s then Inr a
               else if py_in ''hello world'' (lower s) then Inr (PStr (b64encode s))
               else Inr (PStr (b64encode s))
           | _ \<Rightarrow> Inr (PStr (b64encode (py_str rt a))))
      | BOOLEAN \<Rightarrow>
          (case a of
             PBool b \<Rightarrow> Inr a
           | PStr s \<Rightarrow> Inr (PBool (lower s \<in> set truthy_words))
           | _ \<Rightarrow> Inr (PBool (py_bool a)))
      | JSON \<Rightarrow>
          (case a of
             PDict kvs \<Rightarrow> Inr a
           | PList xs \<Rightarrow> Inr a
           | PStr s \<Rightarrow>
               (case json_loads rt s of
                  Some v \<Rightarrow> Inr v
                | None \<Rightarrow> Inr (PDict [(''answer'', PStr s)]))
           | _ \<Rightarrow> Inr (PDict [(''answer'', PStr (py_str rt a))]))
      | STRING \<Rightarrow> Inr (PStr (py_str rt a)))"

text \<open>\<^verbatim>\<open>QuizSolver._enforce_answer_type\<close>: the handler returns \<^verbatim>\<open>str(answer)\<close>.\<close>

definition enforce_answer_type :: "py_runtime \<Rightarrow> pyval \<Rightarrow> AnswerType \<Rightarrow> pyval" where
  "enforce_answer_type rt a expected_type =
     (case enforce_try rt a expected_type of
        Inr v \<Rightarrow> v
      | Inl e \<Rightarrow> PStr (py_str rt a))"

subsection \<open>The solver object\<close>

text \<open>
  The fields of a \<^verbatim>\<open>QuizSolver\<close> that do not change during a chain, with the
  collaborators it calls and the two settings it reads. The current URL is passed
  along explicitly.
\<close>

record 'w solver =
  sv_env :: "'w env"
  sv_rt :: py_runtime
  sv_parser :: parser_fns
  sv_models :: "model list"
  sv_request :: QuizRequest
  sv_start_time :: real
  MAX_QUIZ_ATTEMPTS :: nat
  RETRY_DELAY :: real

text \<open>\<^verbatim>\<open>QuizSolver._is_timed_out\<close>.\<close>

definition is_timed_out :: "'w solver \<Rightarrow> 'w \<Rightarrow> bool" where
  "is_timed_out S w = (clock (sv_env S) w - sv_start_time S > 180)"

text \<open>\<^verbatim>\<open>QuizSolver._get_question_content\<close>.\<close>

definition get_question_content ::
  "'w solver \<Rightarrow> string \<Rightarrow> 'w \<Rightarrow> ParsedQuestion option \<times> event list \<times> 'w" where
  "get_question_content S current_url w =
     (case browser_get_page_content (sv_env S) current_url w of
        (Inr page, w1) \<Rightarrow>
          (Some (parse_page_content (sv_parser S) current_url page), [BrowserGet current_url], w1)
      | (Inl e, w1) \<Rightarrow>
          (case fallback_get_page_content (sv_env S) current_url w1 of
             (Inr page, w2) \<Rightarrow>
               (Some (parse_page_content (sv_parser S) current_url page),
                [BrowserGet current_url, FallbackGet current_url], w2)
           | (Inl e', w2) \<Rightarrow>
               (None, [BrowserGet current_url, FallbackGet current_url], w2)))"

text \<open>The loop of \<^verbatim>\<open>QuizSolver._process_resources\<close> over the resources.\<close>

fun fetch_all ::
  "'w env \<Rightarrow> py_runtime \<Rightarrow> (string \<times> string) list \<Rightarrow> string list \<Rightarrow> string list \<Rightarrow> 'w \<Rightarrow>
   string list \<times> event list \<times> 'w" where
  "fetch_all env rt headers [] context_parts w = (context_parts, [], w)"
| "fetch_all env rt headers (resource_url # rest) context_parts w =
     (case fetch_resource env resource_url headers w of
        (Inr result, w1) \<Rightarrow>
          emit [ResourceGet resource_url headers]
            (fetch_all env rt headers rest
               (context_parts
                @ [''Resource: '' @ resource_url]
                @ (if headers \<noteq> [] then [''Headers used: '' @ repr_headers rt headers] else [])
                @ [''Content: '' @ pr_content result, ''---''])
               w1)
      | (Inl e, w1) \<Rightarrow>
          emit [ResourceGet resource_url headers]
            (fetch_all env rt headers rest
               (context_parts @ [''Error fetching '' @ resource_url @ '': '' @ message e])
               w1))"

text \<open>\<^verbatim>\<open>QuizSolver._process_resources\<close>. The page is read again through the fallback
  reader to find the headers; a failure there leaves the headers empty.\<close>

definition process_resources ::
  "'w solver \<Rightarrow> string \<Rightarrow> string list \<Rightarrow> 'w \<Rightarrow> string \<times> event list \<times> 'w" where
  "process_resources S current_url resources w =
     (if resources = [] then (''No external resources required.'', [], w)
      else
        (case fallback_get_page_content (sv_env S) current_url w of
           (r, w1) \<Rightarrow>
             (let headers = (case r of
                               Inr page \<Rightarrow> extract_api_headers (visible_text page)
                             | Inl e \<Rightarrow> [])
              in case fetch_all (sv_env S) (sv_rt S) headers resources
                        [''EXTERNAL RESOURCES:''] w1 of
                   (context_parts, evs, w2) \<Rightarrow>
                     (join ''\<newline>'' context_parts, FallbackGet current_url # evs, w2))))"

text \<open>\<^verbatim>\<open>QuizSolver._reason_about_answer\<close>. When the engine returns nothing, reading
  \<^verbatim>\<open>result.answer\<close> raises.\<close>

definition reason_about_answer ::
  "'w solver \<Rightarrow> ParsedQuestion \<Rightarrow> string \<Rightarrow> nat \<Rightarrow> 'w \<Rightarrow> (py_exception + pyval) \<times> event list \<times> 'w" where
  "reason_about_answer S q ctx attempt w =
     (let reasoning_request =
            \<lparr> llm_question = pq_question_text q, llm_context = ctx,
              llm_expected_type = pq_expected_type q, llm_attempt_number = int attempt + 1 \<rparr>
      in case reason_about_question (sv_env S) (sv_rt S) (sv_models S) reasoning_request
                (int attempt) w of
           (Inl e, evs, w1) \<Rightarrow> (Inl e, evs, w1)
         | (Inr None, evs, w1) \<Rightarrow>
             (Inl (PyException (quote @ ''NoneType'' @ quote @ '' object has no attribute ''
                                @ quote @ ''answer'' @ quote)), evs, w1)
         | (Inr (Some result), evs, w1) \<Rightarrow>
             (Inr (enforce_answer_type (sv_rt S) (llm_answer result) (pq_expected_type q)),
              evs, w1))"

text \<open>\<^verbatim>\<open>QuizSolver._submit_answer\<close>. The submission carries the URL of the quiz page.
  \<^verbatim>\<open>AnswerSubmission\<close> does not accept \<^verbatim>\<open>None\<close> as an answer.\<close>

definition solver_submit_answer ::
  "'w solver \<Rightarrow> string \<Rightarrow> ParsedQuestion \<Rightarrow> pyval \<Rightarrow> 'w \<Rightarrow>
   (py_exception + QuizResponse) \<times> event list \<times> 'w" where
  "solver_submit_answer S current_url q a w =
     (let final_answer =
            (case a of
               PStr s \<Rightarrow>
                 if pq_expected_type q = NUMBER then
                   (if CHR ''.'' \<in> set s
                    then (case float_of_str (sv_rt S) s of Some f \<Rightarrow> PFloat f | None \<Rightarrow> a)
                    else (case int_of_str (sv_rt S) s of Some i \<Rightarrow> PInt i | None \<Rightarrow> a))
                 else a
             | _ \<Rightarrow> a)
      in if final_answer = PNone
         then (Inl (PyException ''validation error for AnswerSubmission''), [], w)
         else submit_answer (sv_env S) (sv_rt S)
                \<lparr> sub_email = req_email (sv_request S), sub_secret = req_secret (sv_request S),
                  sub_url = current_url, sub_answer = final_answer \<rparr>
                (pq_submit_url q) w)"

text \<open>The loop of \<^verbatim>\<open>QuizSolver._solve_with_retries\<close>: \<open>n\<close> iterations of
  \<^verbatim>\<open>range(MAX_QUIZ_ATTEMPTS)\<close> are still to run, \<open>attempt\<close> is the loop variable.\<close>

fun attempts_loop ::
  "'w solver \<Rightarrow> string \<Rightarrow> ParsedQuestion \<Rightarrow> string \<Rightarrow> nat \<Rightarrow> nat \<Rightarrow> QuizResponse option \<Rightarrow> 'w \<Rightarrow>
   (py_exception + QuizResponse option) \<times> event list \<times> 'w" where
  "attempts_loop S current_url q ctx 0 attempt last_result w = (Inr last_result, [], w)"
| "attempts_loop S current_url q ctx (Suc n) attempt last_result w =
     (case reason_about_answer S q ctx attempt w of
        (Inl e, evs, w1) \<Rightarrow> (Inl e, evs, w1)
      | (Inr a, evs, w1) \<Rightarrow>
          (case solver_submit_answer S current_url q a w1 of
             (Inl e, evs2, w2) \<Rightarrow> (Inl e, evs @ evs2, w2)
           | (Inr result, evs2, w2) \<Rightarrow>
               if correct result then (Inr (Some result), evs @ evs2, w2)
               else if int attempt < int (MAX_QUIZ_ATTEMPTS S) - 1
               then emit (evs @ evs2 @ [Sleep (RETRY_DELAY S)])
                      (attempts_loop S current_url q ctx n (attempt + 1) (Some result)
                         (asyncio_sleep (sv_env S) (RETRY_DELAY S) w2))
               else emit (evs @ evs2)
                      (attempts_loop S current_url q ctx n (attempt + 1) (Some result) w2)))"

definition solve_with_retries ::
  "'w solver \<Rightarrow> string \<Rightarrow> ParsedQuestion \<Rightarrow> string \<Rightarrow> 'w \<Rightarrow>
   (py_exception + QuizResponse option) \<times> event list \<times> 'w" where
  "solve_with_retries S current_url q ctx w =
     attempts_loop S current_url q ctx (MAX_QUIZ_ATTEMPTS S) 0 None w"

text \<open>Step 4 of the loop body of \<^verbatim>\<open>solve_chain\<close>: the new current URL.\<close>

definition decide_next :: "QuizResponse \<Rightarrow> string option" where
  "decide_next final_result =
     (if correct final_result \<and> str_truthy (url final_result) then url final_result
      else if \<not> correct final_result \<and> str_truthy (url final_result) then url final_result
      else None)"

text \<open>
  One pass through the body of the \<^verbatim>\<open>while\<close> loop of \<^verbatim>\<open>solve_chain\<close>. It ends with
  \<^verbatim>\<open>break\<close>, with an exception that the handler around the loop catches, or with a new
  value of the current URL.
\<close>

datatype step = Break | Raised py_exception | Next "string option"

definition solve_chain_body :: "'w solver \<Rightarrow> string \<Rightarrow> 'w \<Rightarrow> step \<times> event list \<times> 'w" where
  "solve_chain_body S current_url w =
     (case get_question_content S current_url w of
        (None, evs, w1) \<Rightarrow> (Break, evs, w1)
      | (Some q, evs, w1) \<Rightarrow>
          (case process_resources S current_url (pq_resources q) w1 of
             (ctx, evs2, w2) \<Rightarrow>
               (case solve_with_retries S current_url q ctx w2 of
                  (Inl e, evs3, w3) \<Rightarrow> (Raised e, evs @ evs2 @ evs3, w3)
                | (Inr None, evs3, w3) \<Rightarrow>
                    (Raised (PyException (quote @ ''NoneType'' @ quote
                                          @ '' object has no attribute '' @ quote @ ''correct''
                                          @ quote)),
                     evs @ evs2 @ evs3, w3)
                | (Inr (Some final_result), evs3, w3) \<Rightarrow>
                    (Next (decide_next final_result), evs @ evs2 @ evs3, w3))))"

text \<open>
  The \<^verbatim>\<open>while\<close> loop. The number of pages of a chain is not bounded by the program
  text, so the loop takes fuel; \<open>None\<close> means that the fuel ran out before the loop
  ended. The result is the last value of the current URL.
\<close>

fun solve_loop ::
  "'w solver \<Rightarrow> nat \<Rightarrow> string option \<Rightarrow> 'w \<Rightarrow> (string option \<times> event list \<times> 'w) option" where
  "solve_loop S fuel None w = Some (None, [], w)"
| "solve_loop S fuel (Some u) w =
     (if u \<noteq> [] \<and> \<not> is_timed_out S w then
        (case fuel of
           0 \<Rightarrow> None
         | Suc n \<Rightarrow>
             (case solve_chain_body S u w of
                (Break, evs, w1) \<Rightarrow> Some (Some u, evs, w1)
              | (Raised e, evs, w1) \<Rightarrow> Some (Some u, evs, w1)
              | (Next u', evs, w1) \<Rightarrow> map_option (emit evs) (solve_loop S n u' w1)))
      else Some (Some u, [], w))"

text \<open>\<^verbatim>\<open>QuizSolver.solve_chain\<close>: the loop, then the clean-up of the \<^verbatim>\<open>finally\<close> clause.\<close>

definition solve_chain ::
  "'w solver \<Rightarrow> nat \<Rightarrow> 'w \<Rightarrow> (string option \<times> event list \<times> 'w) option" where
  "solve_chain S fuel w =
     (case solve_loop S fuel (Some (req_url (sv_request S))) w of
        None \<Rightarrow> None
      | Some (u, evs, w1) \<Rightarrow> Some (u, evs @ [Cleanup], close_all (sv_env S) w1))"

section \<open>The window of an attempt, as the specification words it\<close>


section \<open>Answers on which coercion is stable\<close>





section \<open>An instance of the parameters\<close>

text \<open>
  A runtime, a world, a parser and a solver on which the model can be evaluated. The
  runtime agrees with Python on integers, booleans, \<^verbatim>\<open>None\<close>, decimal numerals that a
  float represents exactly, and strings of printable ASCII characters without quotes
  and backslashes; it prints every float as \<^verbatim>\<open>nan\<close>, and of JSON it reads only the
  one response body that the world sends (every call of \<open>json_loads\<close> fails). In the
  world the browser is not available, the fallback reader returns a fixed page, a
  resource whose URL contains "missing" cannot be fetched, every model answers "20", a
  post to a URL that contains "unreachable" fails with a refused connection, and any
  other post is answered with a wrong-answer verdict that names a next URL; the world
  state is the reading of the clock, which each call advances.
\<close>

definition decimal_float :: "string \<Rightarrow> pyfloat option" where
  "decimal_float s =
     (let neg = (take 1 s = ''-'');
          t = (if neg then drop 1 s else s);
          ip = takeWhile isdigit t;
          rest = dropWhile isdigit t;
          fp = drop 1 rest;
          q = (of_int (int_of_digits (ip @ fp)) / 10 ^ length fp :: rat)
      in if ip = [] \<or> \<not> (rest = [] \<or> (take 1 rest = ''.'' \<and> list_all isdigit fp)) then None
         else if neg \<and> q = 0 then Some NegZero
         else Some (Finite (if neg then - q else q)))"

definition decimal_int :: "string \<Rightarrow> int option" where
  "decimal_int s =
     (let neg = (take 1 s = ''-'');
          t = (if neg then drop 1 s else s)
      in if t = [] \<or> \<not> list_all isdigit t then None
         else Some (if neg then - int_of_digits t else int_of_digits t))"

fun json_text :: "pyval \<Rightarrow> string" where
  "json_text PNone = ''null''"
| "json_text (PBool b) = (if b then ''true'' else ''false'')"
| "json_text (PInt i) = str_int i"
| "json_text (PFloat f) = ''NaN''"
| "json_text (PStr s) = ''\"'' @ s @ ''\"''"
| "json_text (PList xs) = ''['' @ join '', '' (map json_text xs) @ '']''"
| "json_text (PDict kvs) =
     ''{'' @ join '', '' (map (\<lambda>kv. ''\"'' @ fst kv @ ''\": '' @ json_text (snd kv)) kvs) @ ''}''"

definition sample_body :: string where
  "sample_body = ''{\"correct\": false, \"url\": \"https://quiz.example/next\"}''"

definition sample_runtime :: py_runtime where
  "sample_runtime =
     \<lparr> repr_float = (\<lambda>f. ''nan''),
       repr_str = (\<lambda>s. quote @ s @ quote),
       float_of_str = decimal_float,
       int_of_str = decimal_int,
       json_loads = (\<lambda>s. None),
       json_dumps = (\<lambda>p. json_text (PDict [(''email'', PStr (sub_email p)),
                                              (''secret'', PStr (sub_secret p)),
                                              (''url'', PStr (sub_url p)),
                                              (''answer'', sub_answer p)])),
       str_overhead = 49,
       int_has_is_integer = False,
       quiz_response =
         (\<lambda>b. if b = sample_body
              then Parsed \<lparr> correct = False, url = Some ''https://quiz.example/next'',
                            reason = None \<rparr>
              else JSONDecodeError) \<rparr>"

definition sample_page :: page_content where
  "sample_page =
     \<lparr> html = ''<p>What is the sum of the values?</p>'',
       visible_text = ''What is the sum of the values?'',
       scripts = [] \<rparr>"

definition sample_env :: "real env" where
  "sample_env =
     \<lparr> clock = (\<lambda>w. w),
       browser_get_page_content = (\<lambda>u w. (Inl (PyException ''browser unavailable''), w + 1)),
       fallback_get_page_content = (\<lambda>u w. (Inr sample_page, w + 1)),
       fetch_resource =
         (\<lambda>u hs w. (if py_in ''missing'' u then Inl (PyException ''404 Not Found'')
                     else Inr \<lparr> pr_content = ''values: 3, 7, 10'' \<rparr>, w + 1)),
       generate_content = (\<lambda>name prompt w. (Inr \<lparr> gen_text = ''20'', not_blocked = True \<rparr>, w + 2)),
       session_post =
         (\<lambda>u p w. (if py_in ''unreachable'' u then Inl (PyException ''Connection refused'')
                    else Inr \<lparr> status = 200, body = sample_body \<rparr>, w + 1)),
       asyncio_sleep = (\<lambda>d w. w + d),
       close_all = (\<lambda>w. w) \<rparr>"

definition sample_parser :: parser_fns where
  "sample_parser =
     \<lparr> extract_text_from_html = (\<lambda>h. ''What is the sum of the values?''),
       extract_base64_content = (\<lambda>s. []),
       extract_submit_url = (\<lambda>base text h. base),
       extract_resources =
         (\<lambda>text h. [''https://quiz.example/missing.csv'', ''https://quiz.example/data.json'']),
       extract_question_text = (\<lambda>text. text) \<rparr>"

definition sample_solver :: "real solver" where
  "sample_solver =
     \<lparr> sv_env = sample_env, sv_rt = sample_runtime, sv_parser = sample_parser,
       sv_models = [(''gemini-2.0-flash-lite'', ''primary''), (''gemini-2.0-flash'', ''fallback''),
                    (''gemini-2.5-flash'', ''fallback'')],
       sv_request = \<lparr> req_email = ''student@example.com'', req_secret = ''s3cret'',
                      req_url = ''https://quiz.example/start'' \<rparr>,
       sv_start_time = 0, MAX_QUIZ_ATTEMPTS = 3, RETRY_DELAY = 2 \<rparr>"

text \<open>Two submissions, one of them with an answer of a million characters, and a
  function that raises at every call.\<close>

definition big_submission :: AnswerSubmission where
  "big_submission =
     \<lparr> sub_email = ''student@example.com'', sub_secret = ''s3cret'',
       sub_url = ''https://quiz.example/start'',
       sub_answer = PStr (replicate 1000000 (CHR ''a'')) \<rparr>"

definition small_submission :: AnswerSubmission where
  "small_submission =
     \<lparr> sub_email = ''student@example.com'', sub_secret = ''s3cret'',
       sub_url = ''https://quiz.example/start'', sub_answer = PInt 20 \<rparr>"

definition always_raises :: "real \<Rightarrow> (py_exception + unit) \<times> event list \<times> real" where
  "always_raises w = (Inl (PyException ''Connection refused''), [], w + 1)"

text \<open>The sample solver with a single attempt for each question, the page it starts
  from, the question on that page, and the verdict that the sample world sends.\<close>

definition one_attempt_solver :: "real solver" where
  "one_attempt_solver = sample_solver\<lparr> MAX_QUIZ_ATTEMPTS := 1 \<rparr>"

definition sample_url :: string where
  "sample_url = ''https://quiz.example/start''"

definition sample_question :: ParsedQuestion where
  "sample_question = parse_page_content sample_parser sample_url sample_page"

definition wrong_with_next :: QuizResponse where
  "wrong_with_next = \<lparr> correct = False, url = Some ''https://quiz.example/next'', reason = None \<rparr>"

text \<open>A text with a token after "Authorization:" and another after "Bearer".\<close>

definition two_tokens :: string where
  "two_tokens = ''Authorization: A\<newline>Bearer B''"

text \<open>The two resources of the sample question.\<close>

definition missing_csv :: string where
  "missing_csv = ''https://quiz.example/missing.csv''"

definition data_json :: string where
  "data_json = ''https://quiz.example/data.json''"

section \<open>Properties\<close>

subsection \<open>Slices\<close>



subsection \<open>The retry decorator\<close>

lemma async_retry_ok:
  "0 < m \<Longrightarrow> func w = (Inr x, evs, w1) \<Longrightarrow> async_retry env m d b func w = (Inr x, evs, w1)"
  by (cases m) (simp_all add: async_retry_def)

subsection \<open>The reasoning engine\<close>



text \<open>
  C10. With fewer than three models, an attempt with index 2 or more has an empty
  window, and \<^verbatim>\<open>reason_about_question\<close> returns nothing: no model is called and the
  heuristic is not used (no event is recorded), and the world is unchanged.
\<close>

theorem short_model_list_returns_none:
  "length models < 3 \<Longrightarrow> 2 \<le> attempt \<Longrightarrow>
   models_to_try models attempt = []
   \<and> reason_about_question env rt models request attempt w = (Inr None, [], w)"
proof -
  assume a: "length models < 3" "2 \<le> attempt"
  then have e: "models_to_try models attempt = []"
    by (simp add: models_to_try_def)
  have "reason_about_question_body env rt models request attempt w = (Inr None, [], w)"
    by (simp add: reason_about_question_body_def e)
  then have "reason_about_question env rt models request attempt w = (Inr None, [], w)"
    unfolding reason_about_question_def by (rule async_retry_ok [rotated]) simp
  with e show ?thesis by simp
qed

theorem short_model_list_returns_none_witness:
  "length (take 2 (sv_models sample_solver)) < 3 \<and> (2::int) \<le> 2
   \<and> models_to_try (take 2 (sv_models sample_solver)) 2 = []
   \<and> reason_about_question sample_env sample_runtime (take 2 (sv_models sample_solver))
        \<lparr> llm_question = ''What is the sum of the values?'', llm_context = ''values: 3, 7, 10'',
          llm_expected_type = NUMBER, llm_attempt_number = 3 \<rparr> 2 0
      = (Inr None, [], 0)"
  using short_model_list_returns_none [of "take 2 (sv_models sample_solver)" 2 sample_env sample_runtime
      "\<lparr> llm_question = ''What is the sum of the values?'', llm_context = ''values: 3, 7, 10'',
         llm_expected_type = NUMBER, llm_attempt_number = 3 \<rparr>" 0]
  by (simp add: sample_solver_def)

subsection \<open>The question extractor\<close>

lemma determine_answer_type_not_boolean: "determine_answer_type text \<noteq> BOOLEAN"
  by (simp add: determine_answer_type_def Let_def)

lemma parse_llm_response_not_bool:
  "t \<noteq> BOOLEAN \<Longrightarrow> llm_answer (parse_llm_response rt response_text t) \<noteq> PBool b"
  by (cases t)
     (auto simp: parse_llm_response_def Let_def number_of_float_def
           split: list.splits option.splits)

text \<open>
  C9. The classifier never returns \<open>BOOLEAN\<close>: it returns \<open>NUMBER\<close>, \<open>STRING\<close>,
  \<open>JSON\<close> or \<open>BASE64_FILE\<close>. So the expected kind of a parsed page is never
  \<open>BOOLEAN\<close>, and the answer that the reasoning engine parses for a parsed page is
  never a boolean: the branch for \<open>BOOLEAN\<close> is not reached from a page.
\<close>

theorem classifier_never_boolean:
  "determine_answer_type text \<in> {NUMBER, STRING, JSON, BASE64_FILE}
   \<and> pq_expected_type (parse_page_content P base_url page) \<noteq> BOOLEAN
   \<and> llm_answer (parse_llm_response rt response_text
                   (pq_expected_type (parse_page_content P base_url page))) \<noteq> PBool b"
proof -
  have 1: "determine_answer_type text \<in> {NUMBER, STRING, JSON, BASE64_FILE}"
    using determine_answer_type_not_boolean [of "text"]
    by (cases "determine_answer_type text") simp_all
  have 2: "pq_expected_type (parse_page_content P base_url page) \<noteq> BOOLEAN"
    by (simp add: parse_page_content_def Let_def determine_answer_type_not_boolean)
  from 1 2 show ?thesis
    by (simp add: parse_llm_response_not_bool)
qed

subsection \<open>The answer submitter\<close>

text \<open>
  C4. A submission whose serialised payload has 1,000,000 characters or more is not
  posted: \<^verbatim>\<open>submit_answer\<close> records no event, leaves the world as it is, and returns
  the verdict that is not correct, has no next URL and gives the size limit as its
  reason. (The serialised payload is ASCII, one byte for each character.)
\<close>

theorem payload_size_gate:
  "1000000 \<le> length (json_dumps rt submission) \<Longrightarrow>
   submit_answer env rt submission submit_url w
     = (Inr \<lparr> correct = False, url = None, reason = Some ''Payload size exceeds 1MB limit'' \<rparr>,
        [], w)"
proof -
  assume "1000000 \<le> length (json_dumps rt submission)"
  then have "\<not> validate_payload_size rt submission"
    by (simp add: validate_payload_size_def get_payload_size_def)
  then have "submit_answer_body env rt submission submit_url w
     = (Inr \<lparr> correct = False, url = None, reason = Some ''Payload size exceeds 1MB limit'' \<rparr>,
        [], w)"
    by (simp add: submit_answer_body_def)
  then show ?thesis
    unfolding submit_answer_def by (rule async_retry_ok [rotated]) simp
qed

lemma length_join_ge: "x \<in> set xs \<Longrightarrow> length x \<le> length (join sep xs)"
  by (induction sep xs rule: join.induct) auto

lemma big_submission_size: "1000000 \<le> length (json_dumps sample_runtime big_submission)"
proof -
  let ?x = "''\"answer\": '' @ ''\"'' @ replicate 1000000 (CHR ''a'') @ ''\"''"
  have "length ?x \<le> length (join '', '' [''\"email\": \"student@example.com\"'',
          ''\"secret\": \"s3cret\"'', ''\"url\": \"https://quiz.example/start\"'', ?x])"
    by (rule length_join_ge) simp
  then show ?thesis
    by (simp add: sample_runtime_def big_submission_def)
qed

theorem payload_size_gate_witness:
  "1000000 \<le> length (json_dumps sample_runtime big_submission)
   \<and> submit_answer sample_env sample_runtime big_submission ''https://quiz.example/submit'' 0
     = (Inr \<lparr> correct = False, url = None, reason = Some ''Payload size exceeds 1MB limit'' \<rparr>,
        [], 0)"
  using payload_size_gate [of sample_runtime big_submission sample_env
      "''https://quiz.example/submit''" 0] big_submission_size
  by simp

text \<open>What the decorator does with a function that raises at each of its three calls.\<close>

lemma retry_three_failures:
  "func w = (Inl e1, ev1, w1) \<Longrightarrow>
   func (asyncio_sleep env 1 w1) = (Inl e2, ev2, w2) \<Longrightarrow>
   func (asyncio_sleep env 2 w2) = (Inl e3, ev3, w3) \<Longrightarrow>
   async_retry env 3 1 2 func w = (Inl e3, ev1 @ Sleep 1 # ev2 @ Sleep 2 # ev3, w3)"
  by (simp add: async_retry_def eval_nat_numeral emit_def)

lemma raising_function_is_retried:
  "async_retry sample_env 3 1 2 always_raises 0
     = (Inl (PyException ''Connection refused''), [Sleep 1, Sleep 2], 6)"
  using retry_three_failures [of always_raises 0 "PyException ''Connection refused''" "[]" 1
      sample_env "PyException ''Connection refused''" "[]" 3
      "PyException ''Connection refused''" "[]" 6]
  by (simp add: always_raises_def sample_env_def)

text \<open>
  The function under the decorator never raises: the handler of its \<^verbatim>\<open>try\<close> block
  turns every error of the post into a verdict. So the decorator returns after the
  first call, and \<^verbatim>\<open>submit_answer\<close> is the wrapped function.
\<close>

lemma submit_answer_body_returns:
  "\<exists>r evs w1. submit_answer_body env rt submission submit_url w = (Inr r, evs, w1)"
  by (simp add: submit_answer_body_def split: prod.split sum.split)

lemma submit_answer_is_body:
  "submit_answer env rt submission submit_url w
     = submit_answer_body env rt submission submit_url w"
proof -
  obtain r evs w1 where
    b: "submit_answer_body env rt submission submit_url w = (Inr r, evs, w1)"
    using submit_answer_body_returns [of env rt submission submit_url w] by blast
  then have "submit_answer env rt submission submit_url w = (Inr r, evs, w1)"
    unfolding submit_answer_def by (rule async_retry_ok [rotated]) simp
  with b show ?thesis by simp
qed

lemma post_error_gives_verdict:
  "validate_payload_size rt submission \<Longrightarrow>
   session_post env submit_url submission w = (Inl e, w1) \<Longrightarrow>
   submit_answer env rt submission submit_url w
     = (Inr \<lparr> correct = False, url = None, reason = Some (message e) \<rparr>,
        [Post submit_url submission], w1)"
  by (simp add: submit_answer_is_body submit_answer_body_def)

lemma small_submission_valid: "validate_payload_size sample_runtime small_submission"
  by (simp add: validate_payload_size_def get_payload_size_def sample_runtime_def
        small_submission_def str_int_def)

lemma unreachable_post:
  "session_post sample_env ''https://unreachable.example/submit'' p w
     = (Inl (PyException ''Connection refused''), w + 1)"
  by (simp add: sample_env_def)

text \<open>
  C2 does not hold of the code. Here every post fails with a refused connection,
  whatever the state of the world. \<^verbatim>\<open>submit_answer\<close> makes a single post, does not
  sleep, and returns a verdict (not correct, no next URL, the text of the error as
  its reason) where the claim has three posts and the error raised to the solve loop:
  the handler inside the wrapped function catches the error before the decorator
  can see it.
\<close>

theorem transport_error_not_retried:
  "submit_answer sample_env sample_runtime small_submission
       ''https://unreachable.example/submit'' 0
     = (Inr \<lparr> correct = False, url = None, reason = Some ''Connection refused'' \<rparr>,
        [Post ''https://unreachable.example/submit'' small_submission], 1)"
  using post_error_gives_verdict [OF small_submission_valid
      unreachable_post [of small_submission 0]]
  by simp

subsection \<open>The clock is read by the loop condition only\<close>

lemma retry_loop_clock:
  "retry_loop (env\<lparr>clock := c\<rparr>) func m b n a d le w = retry_loop env func m b n a d le w"
  by (induction n arbitrary: a d le w) (simp_all split: prod.split sum.split)

lemma async_retry_clock:
  "async_retry (env\<lparr>clock := c\<rparr>) m d b func w = async_retry env m d b func w"
  by (simp add: async_retry_def retry_loop_clock)

lemma try_models_clock:
  "try_models (env\<lparr>clock := c\<rparr>) rt prompt request ms w = try_models env rt prompt request ms w"
  by (induction ms arbitrary: w) (simp_all split: prod.split sum.split)

lemma reason_about_question_clock:
  "reason_about_question (env\<lparr>clock := c\<rparr>) rt ms request attempt w
     = reason_about_question env rt ms request attempt w"
proof -
  have "reason_about_question_body (env\<lparr>clock := c\<rparr>) rt ms request attempt
          = reason_about_question_body env rt ms request attempt"
    by (rule ext) (simp add: reason_about_question_body_def try_models_clock split: prod.splits)
  then show ?thesis
    by (simp add: reason_about_question_def async_retry_clock)
qed

lemma submit_answer_clock:
  "submit_answer (env\<lparr>clock := c\<rparr>) rt submission submit_url w
     = submit_answer env rt submission submit_url w"
proof -
  have "submit_answer_body (env\<lparr>clock := c\<rparr>) rt submission submit_url
          = submit_answer_body env rt submission submit_url"
    by (rule ext) (simp add: submit_answer_body_def split: prod.splits sum.splits)
  then show ?thesis
    by (simp add: submit_answer_def async_retry_clock)
qed

lemma fetch_all_clock:
  "fetch_all (env\<lparr>clock := c\<rparr>) rt hs rs parts w = fetch_all env rt hs rs parts w"
  by (induction rs arbitrary: parts w) (simp_all split del: if_split split: prod.split sum.split)

lemma reason_about_answer_clock:
  "reason_about_answer (S\<lparr>sv_env := (sv_env S)\<lparr>clock := c\<rparr>\<rparr>) q ctx attempt w
     = reason_about_answer S q ctx attempt w"
  by (simp add: reason_about_answer_def reason_about_question_clock Let_def
        split: prod.splits sum.splits option.splits)

lemma solver_submit_answer_clock:
  "solver_submit_answer (S\<lparr>sv_env := (sv_env S)\<lparr>clock := c\<rparr>\<rparr>) u q a w
     = solver_submit_answer S u q a w"
  by (simp add: solver_submit_answer_def submit_answer_clock Let_def
        split: pyval.splits)

lemma attempts_loop_clock:
  "attempts_loop (S\<lparr>sv_env := (sv_env S)\<lparr>clock := c\<rparr>\<rparr>) u q ctx n attempt lr w
     = attempts_loop S u q ctx n attempt lr w"
  by (induction n arbitrary: attempt lr w)
     (simp_all add: reason_about_answer_clock solver_submit_answer_clock
        split: prod.split sum.split)

lemma solve_chain_body_clock:
  "solve_chain_body (S\<lparr>sv_env := (sv_env S)\<lparr>clock := c\<rparr>\<rparr>) u w = solve_chain_body S u w"
  by (simp add: solve_chain_body_def get_question_content_def process_resources_def
        solve_with_retries_def attempts_loop_clock fetch_all_clock Let_def
        split: prod.splits sum.splits option.splits)

text \<open>
  C3. When more than 180 seconds have passed since the start of the chain, the loop
  stops where it stands, whatever the current URL and the fuel: no page is fetched (no
  event is recorded) and \<^verbatim>\<open>solve_chain\<close> only cleans up. The body of the loop never
  reads the clock: it computes the same with any other clock, so the time limit acts
  between two passes through the body and not within one.
\<close>

theorem budget_termination:
  "clock (sv_env S) w - sv_start_time S > 180 \<Longrightarrow>
   solve_loop S fuel (Some u) w = Some (Some u, [], w)
   \<and> solve_chain S fuel w
       = Some (Some (req_url (sv_request S)), [Cleanup], close_all (sv_env S) w)
   \<and> solve_chain_body (S\<lparr>sv_env := (sv_env S)\<lparr>clock := c\<rparr>\<rparr>) u w = solve_chain_body S u w"
  by (simp add: solve_chain_def is_timed_out_def solve_chain_body_clock)

theorem budget_termination_witness:
  "clock (sv_env sample_solver) 200 - sv_start_time sample_solver > 180
   \<and> solve_loop sample_solver 0 (Some ''https://quiz.example/next'') 200
       = Some (Some ''https://quiz.example/next'', [], 200)
   \<and> solve_chain sample_solver 0 200 = Some (Some ''https://quiz.example/start'', [Cleanup], 200)"
  using budget_termination [of sample_solver 200 0 "''https://quiz.example/next''"]
  by (simp add: sample_solver_def sample_env_def)

subsection \<open>The next URL\<close>

text \<open>
  C6. The new current URL is the next URL of the final verdict when the verdict has one
  (a string that is not empty), whether the verdict is correct or not, and none exactly
  when the verdict has none. A pass through the loop body that ends with a verdict hands
  this URL to the next test of the loop condition, and the loop ends at once when there
  is no current URL.
\<close>

theorem decide_next_rule:
  "decide_next r = (if str_truthy (url r) then url r else None)
   \<and> (decide_next r = None \<longleftrightarrow> \<not> str_truthy (url r))
   \<and> solve_loop S fuel None w = Some (None, [], w)
   \<and> (get_question_content S u w = (Some q, evs1, w1) \<longrightarrow>
      process_resources S u (pq_resources q) w1 = (ctx, evs2, w2) \<longrightarrow>
      solve_with_retries S u q ctx w2 = (Inr (Some r), evs3, w3) \<longrightarrow>
      solve_chain_body S u w = (Next (decide_next r), evs1 @ evs2 @ evs3, w3)
      \<and> (u \<noteq> [] \<longrightarrow> \<not> is_timed_out S w \<longrightarrow>
         solve_loop S (Suc n) (Some u) w
           = map_option (emit (evs1 @ evs2 @ evs3)) (solve_loop S n (decide_next r) w3)))"
  by (auto simp: decide_next_def str_truthy_def solve_chain_body_def split: option.splits)

lemma sample_question_get:
  "get_question_content one_attempt_solver sample_url 0
     = (Some sample_question, [BrowserGet sample_url, FallbackGet sample_url], 2)"
  by (simp add: get_question_content_def one_attempt_solver_def sample_solver_def sample_env_def
        sample_question_def)

lemma sample_question_type: "pq_expected_type sample_question = NUMBER"
  by code_simp

lemma sample_answer:
  "llm_answer (parse_llm_response sample_runtime ''20'' NUMBER) = PInt 20"
  by code_simp

lemma sample_post:
  "session_post sample_env sample_url p w = (Inr \<lparr> status = 200, body = sample_body \<rparr>, w + 1)"
proof -
  have "\<not> py_in ''unreachable'' sample_url" by code_simp
  then show ?thesis by (simp add: sample_env_def)
qed

lemma sample_payload_valid:
  "validate_payload_size sample_runtime
     \<lparr> sub_email = ''student@example.com'', sub_secret = ''s3cret'', sub_url = sample_url,
       sub_answer = PInt 20 \<rparr>"
  by (simp add: validate_payload_size_def get_payload_size_def sample_runtime_def
        sample_url_def str_int_def)

lemma sample_submit:
  "submit_answer sample_env sample_runtime
     \<lparr> sub_email = ''student@example.com'', sub_secret = ''s3cret'', sub_url = sample_url,
       sub_answer = PInt 20 \<rparr> sample_url w
   = (Inr wrong_with_next,
      [Post sample_url \<lparr> sub_email = ''student@example.com'', sub_secret = ''s3cret'',
                         sub_url = sample_url, sub_answer = PInt 20 \<rparr>], w + 1)"
proof -
  have "submit_answer_body sample_env sample_runtime
     \<lparr> sub_email = ''student@example.com'', sub_secret = ''s3cret'', sub_url = sample_url,
       sub_answer = PInt 20 \<rparr> sample_url w
   = (Inr wrong_with_next,
      [Post sample_url \<lparr> sub_email = ''student@example.com'', sub_secret = ''s3cret'',
                         sub_url = sample_url, sub_answer = PInt 20 \<rparr>], w + 1)"
    by (simp add: submit_answer_body_def sample_payload_valid sample_post wrong_with_next_def)
       (simp add: sample_runtime_def)
  then show ?thesis
    unfolding submit_answer_def by (rule async_retry_ok [rotated]) simp
qed

lemma sample_attempt:
  "fst (solve_with_retries one_attempt_solver sample_url sample_question ctx w)
     = Inr (Some wrong_with_next)"
proof -
  let ?req = "\<lparr> llm_question = pq_question_text sample_question, llm_context = ctx,
                 llm_expected_type = NUMBER, llm_attempt_number = 1 \<rparr>"
  let ?res = "(parse_llm_response sample_runtime ''20'' NUMBER)
                \<lparr> llm_confidence := calculate_confidence \<lparr> gen_text = ''20'', not_blocked = True \<rparr>
                     (llm_answer (parse_llm_response sample_runtime ''20'' NUMBER)) \<rparr>"
  have b: "reason_about_question_body sample_env sample_runtime (sv_models sample_solver) ?req 0 w
         = (Inr (Some ?res), [Generate ''gemini-2.0-flash-lite'' (build_prompt ?req 0)], w + 2)"
    by (simp add: reason_about_question_body_def models_to_try_def sample_solver_def
          sample_env_def Let_def)
  from b have q: "reason_about_question sample_env sample_runtime (sv_models sample_solver) ?req 0 w
         = (Inr (Some ?res), [Generate ''gemini-2.0-flash-lite'' (build_prompt ?req 0)], w + 2)"
    unfolding reason_about_question_def by (rule async_retry_ok [rotated]) simp
  have a: "reason_about_answer one_attempt_solver sample_question ctx 0 w
         = (Inr (PInt 20), [Generate ''gemini-2.0-flash-lite'' (build_prompt ?req 0)], w + 2)"
    using q
    by (simp add: reason_about_answer_def one_attempt_solver_def sample_question_type
          sample_answer enforce_answer_type_def enforce_try_def)
       (simp add: sample_solver_def sample_question_type sample_answer enforce_answer_type_def
          enforce_try_def)
  have s: "solver_submit_answer one_attempt_solver sample_url sample_question (PInt 20) w'
         = (Inr wrong_with_next,
            [Post sample_url \<lparr> sub_email = ''student@example.com'', sub_secret = ''s3cret'',
                               sub_url = sample_url, sub_answer = PInt 20 \<rparr>], w' + 1)" for w'
    using sample_submit [of w']
    by (simp add: solver_submit_answer_def one_attempt_solver_def sample_solver_def)
       (simp add: parse_page_content_def sample_question_def sample_parser_def Let_def)
  have m: "MAX_QUIZ_ATTEMPTS one_attempt_solver = Suc 0"
    by (simp add: one_attempt_solver_def)
  have "\<not> correct wrong_with_next"
    by (simp add: wrong_with_next_def)
  then show ?thesis
    by (simp add: solve_with_retries_def m a s emit_def)
qed

theorem decide_next_rule_witness:
  "decide_next wrong_with_next = Some ''https://quiz.example/next''
   \<and> solve_loop one_attempt_solver 0 None 0 = Some (None, [], 0)
   \<and> fst (solve_chain_body one_attempt_solver sample_url 0)
       = Next (Some ''https://quiz.example/next'')"
proof -
  let ?p = "process_resources one_attempt_solver sample_url (pq_resources sample_question) 2"
  let ?s = "solve_with_retries one_attempt_solver sample_url sample_question (fst ?p)
              (snd (snd ?p))"
  have 1: "?p = (fst ?p, fst (snd ?p), snd (snd ?p))" by simp
  have 2: "?s = (Inr (Some wrong_with_next), fst (snd ?s), snd (snd ?s))"
    using sample_attempt [of "fst ?p" "snd (snd ?p)"] by (metis prod.collapse)
  show ?thesis
    using decide_next_rule [of wrong_with_next one_attempt_solver 0 0 sample_url
        sample_question "[BrowserGet sample_url, FallbackGet sample_url]" 2
        "fst ?p" "fst (snd ?p)" "snd (snd ?p)" "fst (snd ?s)" "snd (snd ?s)" 0]
      sample_question_get 1 2
    by (simp add: wrong_with_next_def str_truthy_def)
qed

subsection \<open>Request headers\<close>

text \<open>
  C8 fails on this text. The first pattern for \<^verbatim>\<open>Authorization\<close> finds the token A,
  which would give the value "Bearer A"; the third pattern finds B afterwards and its
  value replaces the first: the value returned comes from the last pattern that
  matches, not from the first.
\<close>

theorem header_last_pattern_wins:
  "findall True (lit ''Authorization:'' @ rest_of_line) two_tokens = [''A'']
   \<and> header_value ''Authorization'' ''A'' = ''Bearer A''
   \<and> extract_api_headers two_tokens = [(''Authorization'', ''Bearer B'')]"
  by code_simp

subsection \<open>Base64: decoding what was encoded\<close>
























subsection \<open>Coercion applied twice\<close>









lemma enforce_base64_str: "\<exists>s. enforce_answer_type rt a BASE64_FILE = PStr s"
  by (cases a) (simp_all add: enforce_answer_type_def enforce_try_def)

lemma empty_not_hello: "\<not> decodes_to_hello_world []"
  by (simp add: decodes_to_hello_world_def b64decode_def lower_def)

lemma enforce_base64:
  "(case enforce_answer_type rt a BASE64_FILE of PStr s \<Rightarrow> decodes_to_hello_world s \<or> s = [] | _ \<Rightarrow> False) \<Longrightarrow>
   enforce_answer_type rt (enforce_answer_type rt a BASE64_FILE) BASE64_FILE
     = enforce_answer_type rt a BASE64_FILE"
  by (cases "enforce_answer_type rt a BASE64_FILE")
     (auto simp: enforce_answer_type_def enforce_try_def empty_not_hello)










subsection \<open>Occurrence of a text in another\<close>

lemma py_in_iff: "py_in sub s \<longleftrightarrow> (\<exists>p q. s = p @ sub @ q)"
proof (induction s)
  case Nil
  then show ?case by auto
next
  case (Cons c cs)
  show ?case
  proof
    assume "py_in sub (c # cs)"
    then consider "prefix sub (c # cs)" | "py_in sub cs" by auto
    then show "\<exists>p q. c # cs = p @ sub @ q"
    proof cases
      case 1
      then obtain q where "c # cs = sub @ q" by (auto simp: prefix_def)
      then have "c # cs = [] @ sub @ q" by simp
      then show ?thesis by blast
    next
      case 2
      with Cons.IH obtain p q where "cs = p @ sub @ q" by blast
      then have "c # cs = (c # p) @ sub @ q" by simp
      then show ?thesis by blast
    qed
  next
    assume "\<exists>p q. c # cs = p @ sub @ q"
    then obtain p q where e: "c # cs = p @ sub @ q" by blast
    show "py_in sub (c # cs)"
    proof (cases p)
      case Nil
      with e have "prefix sub (c # cs)" by (simp add: prefix_def)
      then show ?thesis by simp
    next
      case (Cons d p')
      with e have "cs = p' @ sub @ q" by simp
      with Cons.IH have "py_in sub cs" by blast
      then show ?thesis by simp
    qed
  qed
qed

lemma py_in_trans: "py_in a b \<Longrightarrow> py_in b c \<Longrightarrow> py_in a c"
proof -
  assume "py_in a b" "py_in b c"
  then obtain p q p' q' where "b = p @ a @ q" "c = p' @ b @ q'"
    by (auto simp: py_in_iff)
  then have "c = (p' @ p) @ a @ (q @ q')" by simp
  then show ?thesis unfolding py_in_iff by blast
qed

lemma py_in_part: "py_in x (p @ x @ q)"
  unfolding py_in_iff by blast

lemma py_in_join: "x \<in> set xs \<Longrightarrow> py_in x (join sep xs)"
proof (induction sep xs rule: join.induct)
  case (1 sep)
  then show ?case by simp
next
  case (2 sep y)
  then have "join sep [y] = [] @ x @ []" by simp
  then show ?case by (metis py_in_part)
next
  case (3 sep y z zs)
  show ?case
  proof (cases "x = y")
    case True
    then have "join sep (y # z # zs) = [] @ x @ (sep @ join sep (z # zs))" by simp
    then show ?thesis by (metis py_in_part)
  next
    case False
    with 3 have "py_in x (join sep (z # zs))" by simp
    then obtain p q where "join sep (z # zs) = p @ x @ q" by (auto simp: py_in_iff)
    then have "join sep (y # z # zs) = (y @ sep @ p) @ x @ q" by simp
    then show ?thesis by (metis py_in_part)
  qed
qed

subsection \<open>The context of the resources\<close>

lemma fetch_all_keeps:
  "fetch_all env rt hs rs parts w = (parts', evs, w') \<Longrightarrow> x \<in> set parts \<Longrightarrow> x \<in> set parts'"
proof (induction rs arbitrary: parts w evs)
  case Nil
  then show ?case by simp
next
  case (Cons r rs)
  obtain o1 w1 where f: "fetch_resource env r hs w = (o1, w1)" by (cases "fetch_resource env r hs w")
  show ?case
  proof (cases o1)
    case (Inl e)
    let ?parts = "parts @ [''Error fetching '' @ r @ '': '' @ message e]"
    obtain evs1 where "fetch_all env rt hs rs ?parts w1 = (parts', evs1, w')"
      using Cons.prems(1) f Inl by (cases "fetch_all env rt hs rs ?parts w1") (simp add: emit_def)
    moreover have "x \<in> set ?parts" using Cons.prems(2) by simp
    ultimately show ?thesis by (rule Cons.IH)
  next
    case (Inr res)
    let ?parts = "parts @ [''Resource: '' @ r]
                  @ (if hs \<noteq> [] then [''Headers used: '' @ repr_headers rt hs] else [])
                  @ [''Content: '' @ pr_content res, ''---'']"
    obtain evs1 where "fetch_all env rt hs rs ?parts w1 = (parts', evs1, w')"
      using Cons.prems(1) f Inr by (cases "fetch_all env rt hs rs ?parts w1") (simp add: emit_def)
    moreover have "x \<in> set ?parts" using Cons.prems(2) by simp
    ultimately show ?thesis by (rule Cons.IH)
  qed
qed

lemma fetch_all_failed:
  "fetch_all env rt hs rs parts w = (parts', evs, w') \<Longrightarrow> A \<in> set rs \<Longrightarrow>
   \<forall>w. \<exists>e w1. fetch_resource env A hs w = (Inl e, w1) \<Longrightarrow>
   \<exists>e. (''Error fetching '' @ A @ '': '' @ message e) \<in> set parts'"
proof (induction rs arbitrary: parts w evs)
  case Nil
  then show ?case by simp
next
  case (Cons r rs)
  obtain o1 w1 where f: "fetch_resource env r hs w = (o1, w1)" by (cases "fetch_resource env r hs w")
  let ?parts = "case o1 of
                  Inl e \<Rightarrow> parts @ [''Error fetching '' @ r @ '': '' @ message e]
                | Inr res \<Rightarrow> parts @ [''Resource: '' @ r]
                    @ (if hs \<noteq> [] then [''Headers used: '' @ repr_headers rt hs] else [])
                    @ [''Content: '' @ pr_content res, ''---'']"
  obtain evs1 where g: "fetch_all env rt hs rs ?parts w1 = (parts', evs1, w')"
    using Cons.prems(1) f
    by (cases "fetch_all env rt hs rs ?parts w1") (auto simp: emit_def split: sum.splits)
  show ?case
  proof (cases "A = r")
    case True
    with Cons.prems(3) f obtain e where "o1 = Inl e" by (metis fst_conv)
    then have "(''Error fetching '' @ A @ '': '' @ message e) \<in> set ?parts"
      using True by simp
    with g have "(''Error fetching '' @ A @ '': '' @ message e) \<in> set parts'"
      by (rule fetch_all_keeps)
    then show ?thesis by blast
  next
    case False
    with Cons.prems(2) have "A \<in> set rs" by simp
    from g this Cons.prems(3) show ?thesis by (rule Cons.IH)
  qed
qed

lemma fetch_all_fetched:
  "fetch_all env rt hs rs parts w = (parts', evs, w') \<Longrightarrow> B \<in> set rs \<Longrightarrow>
   \<forall>w. \<exists>res w1. fetch_resource env B hs w = (Inr res, w1) \<and> pr_content res = cB \<Longrightarrow>
   (''Content: '' @ cB) \<in> set parts'"
proof (induction rs arbitrary: parts w evs)
  case Nil
  then show ?case by simp
next
  case (Cons r rs)
  obtain o1 w1 where f: "fetch_resource env r hs w = (o1, w1)" by (cases "fetch_resource env r hs w")
  let ?parts = "case o1 of
                  Inl e \<Rightarrow> parts @ [''Error fetching '' @ r @ '': '' @ message e]
                | Inr res \<Rightarrow> parts @ [''Resource: '' @ r]
                    @ (if hs \<noteq> [] then [''Headers used: '' @ repr_headers rt hs] else [])
                    @ [''Content: '' @ pr_content res, ''---'']"
  obtain evs1 where g: "fetch_all env rt hs rs ?parts w1 = (parts', evs1, w')"
    using Cons.prems(1) f
    by (cases "fetch_all env rt hs rs ?parts w1") (auto simp: emit_def split: sum.splits)
  show ?case
  proof (cases "B = r")
    case True
    with Cons.prems(3) f obtain res where "o1 = Inr res" "pr_content res = cB"
      by (metis fst_conv)
    then have "(''Content: '' @ cB) \<in> set ?parts" by simp
    with g show ?thesis by (rule fetch_all_keeps)
  next
    case False
    with Cons.prems(2) have "B \<in> set rs" by simp
    from g this Cons.prems(3) show ?thesis by (rule Cons.IH)
  qed
qed

lemma process_resources_context:
  assumes "A \<in> set rs" "B \<in> set rs"
    and "\<forall>hs w. \<exists>e w1. fetch_resource (sv_env S) A hs w = (Inl e, w1)"
    and "\<forall>hs w. \<exists>res w1. fetch_resource (sv_env S) B hs w = (Inr res, w1) \<and> pr_content res = cB"
    and "process_resources S u rs w = (ctx, evs, w')"
  shows "py_in (''Content: '' @ cB) ctx \<and> (\<exists>e. py_in (''Error fetching '' @ A @ '': '' @ message e) ctx)"
proof -
  from assms(1) have ne: "rs \<noteq> []" by auto
  obtain r w1 where f: "fallback_get_page_content (sv_env S) u w = (r, w1)"
    by (cases "fallback_get_page_content (sv_env S) u w")
  let ?hs = "case r of Inr page \<Rightarrow> extract_api_headers (visible_text page) | Inl e \<Rightarrow> []"
  obtain parts evs1 w2 where
    g: "fetch_all (sv_env S) (sv_rt S) ?hs rs [''EXTERNAL RESOURCES:''] w1 = (parts, evs1, w2)"
    by (cases "fetch_all (sv_env S) (sv_rt S) ?hs rs [''EXTERNAL RESOURCES:''] w1")
  from assms(5) ne f g have c: "ctx = join ''\<newline>'' parts"
    by (simp add: process_resources_def Let_def)
  from assms(3) have a: "\<forall>w. \<exists>e w1. fetch_resource (sv_env S) A ?hs w = (Inl e, w1)" by blast
  from fetch_all_failed [OF g assms(1) a]
  obtain e where "(''Error fetching '' @ A @ '': '' @ message e) \<in> set parts"
    by blast
  moreover from assms(4)
  have "\<forall>w. \<exists>res w1. fetch_resource (sv_env S) B ?hs w = (Inr res, w1) \<and> pr_content res = cB"
    by blast
  with g assms(2) have "(''Content: '' @ cB) \<in> set parts"
    by (rule fetch_all_fetched)
  ultimately show ?thesis
    using c py_in_join by blast
qed

subsection \<open>The first call of the reasoning step\<close>

lemma try_models_starts:
  "\<exists>r evs' w'. try_models env rt p req (m # rest) w = (r, Generate (fst m) p # evs', w')"
proof -
  obtain o1 w1 where g: "generate_content env (fst m) p w = (o1, w1)"
    by (cases "generate_content env (fst m) p w")
  show ?thesis
  proof (cases o1)
    case (Inr response)
    with g show ?thesis by (simp add: Let_def)
  next
    case (Inl e)
    show ?thesis
    proof (cases "rest = []")
      case True
      with g Inl show ?thesis by simp
    next
      case False
      obtain r evs1 w2 where "try_models env rt p req rest w1 = (r, evs1, w2)"
        by (cases "try_models env rt p req rest w1")
      with g Inl False show ?thesis by (simp add: emit_def)
    qed
  qed
qed

lemma reason_about_question_starts:
  assumes "models \<noteq> []"
  shows "\<exists>r evs' w'. reason_about_question env rt models req 0 w
           = (Inr r, Generate (fst (hd models)) (build_prompt req 0) # evs', w')"
proof -
  from assms obtain m rest where "models_to_try models 0 = m # rest" "m = hd models"
    by (cases models) (simp_all add: models_to_try_def)
  then obtain r evs' w' where
    "reason_about_question_body env rt models req 0 w
       = (Inr r, Generate (fst (hd models)) (build_prompt req 0) # evs', w')"
    using try_models_starts [of env rt "build_prompt req 0" req m rest w]
    by (auto simp: reason_about_question_body_def)
  then have "reason_about_question env rt models req 0 w
       = (Inr r, Generate (fst (hd models)) (build_prompt req 0) # evs', w')"
    unfolding reason_about_question_def by (rule async_retry_ok [rotated]) simp
  then show ?thesis by blast
qed

lemma reason_about_answer_starts:
  assumes "sv_models S \<noteq> []"
  shows "\<exists>r evs' w'. reason_about_answer S q ctx 0 w
           = (r, Generate (fst (hd (sv_models S)))
                   (build_prompt \<lparr> llm_question = pq_question_text q, llm_context = ctx,
                                   llm_expected_type = pq_expected_type q,
                                   llm_attempt_number = 1 \<rparr> 0) # evs', w')"
proof -
  let ?req = "\<lparr> llm_question = pq_question_text q, llm_context = ctx,
                 llm_expected_type = pq_expected_type q, llm_attempt_number = 1 \<rparr>"
  from reason_about_question_starts [OF assms, of "sv_env S" "sv_rt S" ?req w]
  obtain r evs' w' where
    "reason_about_question (sv_env S) (sv_rt S) (sv_models S) ?req 0 w
       = (Inr r, Generate (fst (hd (sv_models S))) (build_prompt ?req 0) # evs', w')"
    by blast
  then show ?thesis
    by (cases r) (simp_all add: reason_about_answer_def)
qed

lemma solve_with_retries_starts:
  assumes "sv_models S \<noteq> []" "0 < MAX_QUIZ_ATTEMPTS S"
  shows "\<exists>r evs' w'. solve_with_retries S u q ctx w
           = (r, Generate (fst (hd (sv_models S)))
                   (build_prompt \<lparr> llm_question = pq_question_text q, llm_context = ctx,
                                   llm_expected_type = pq_expected_type q,
                                   llm_attempt_number = 1 \<rparr> 0) # evs', w')"
proof -
  let ?g = "Generate (fst (hd (sv_models S)))
              (build_prompt \<lparr> llm_question = pq_question_text q, llm_context = ctx,
                              llm_expected_type = pq_expected_type q,
                              llm_attempt_number = 1 \<rparr> 0)"
  from assms(2) obtain n where n: "MAX_QUIZ_ATTEMPTS S = Suc n" by (cases "MAX_QUIZ_ATTEMPTS S") auto
  from reason_about_answer_starts [OF assms(1), of q ctx w]
  obtain ra evs1 w1 where a: "reason_about_answer S q ctx 0 w = (ra, ?g # evs1, w1)" by blast
  show ?thesis
  proof (cases ra)
    case (Inl e)
    with a n show ?thesis by (simp add: solve_with_retries_def)
  next
    case (Inr ans)
    obtain rs evs2 w2 where s: "solver_submit_answer S u q ans w1 = (rs, evs2, w2)"
      by (cases "solver_submit_answer S u q ans w1")
    show ?thesis
    proof (cases rs)
      case (Inl e)
      with a Inr s n show ?thesis by (simp add: solve_with_retries_def)
    next
      case res: (Inr result)
      obtain r3 evs3 w3 where
        "attempts_loop S u q ctx n (Suc 0) (Some result)
           (asyncio_sleep (sv_env S) (RETRY_DELAY S) w2) = (r3, evs3, w3)"
        by (cases "attempts_loop S u q ctx n (Suc 0) (Some result)
                     (asyncio_sleep (sv_env S) (RETRY_DELAY S) w2)")
      moreover obtain r4 evs4 w4 where
        "attempts_loop S u q ctx n (Suc 0) (Some result) w2 = (r4, evs4, w4)"
        by (cases "attempts_loop S u q ctx n (Suc 0) (Some result) w2")
      ultimately show ?thesis
        using a Inr s res n by (simp add: solve_with_retries_def emit_def)
    qed
  qed
qed

lemma prompt_has_context: "py_in (llm_context req) (build_prompt req attempt)"
proof -
  let ?line = "''        '' @ ''CONTEXT AND DATA: '' @ llm_context req"
  have "?line = (''        '' @ ''CONTEXT AND DATA: '') @ llm_context req @ []" by simp
  then have "py_in (llm_context req) ?line" by (metis py_in_part)
  moreover have "py_in ?line (build_prompt req attempt)"
    unfolding build_prompt_def Let_def by (rule py_in_join) simp
  ultimately show ?thesis by (rule py_in_trans)
qed

text \<open>
  C5. When the resource A cannot be fetched and the resource B can, whatever the headers
  and the state of the world, the context that \<^verbatim>\<open>_process_resources\<close> builds for a
  list with both contains the line with the content of B and an error note that names
  A. The method always returns; in a pass through the loop body its context goes to
  the reasoning step: the next call after the resources is the first model of
  the engine, with a prompt that contains the whole context.
\<close>

theorem resource_isolation:
  assumes "A \<in> set rs" "B \<in> set rs"
    and "\<forall>hs w. \<exists>e w1. fetch_resource (sv_env S) A hs w = (Inl e, w1)"
    and "\<forall>hs w. \<exists>res w1. fetch_resource (sv_env S) B hs w = (Inr res, w1) \<and> pr_content res = cB"
  shows "\<exists>ctx evs w'.
           process_resources S u rs w = (ctx, evs, w')
           \<and> py_in (''Content: '' @ cB) ctx
           \<and> (\<exists>e. py_in (''Error fetching '' @ A @ '': '' @ message e) ctx)
           \<and> (get_question_content S u w0 = (Some q, evs0, w) \<longrightarrow> pq_resources q = rs \<longrightarrow>
              sv_models S \<noteq> [] \<longrightarrow> 0 < MAX_QUIZ_ATTEMPTS S \<longrightarrow>
              (\<exists>prompt evs2 st w3.
                 solve_chain_body S u w0
                   = (st, evs0 @ evs @ Generate (fst (hd (sv_models S))) prompt # evs2, w3)
                 \<and> py_in ctx prompt))"
proof -
  obtain ctx evs w' where p: "process_resources S u rs w = (ctx, evs, w')"
    by (cases "process_resources S u rs w")
  note c = process_resources_context [OF assms p]
  have "\<exists>prompt evs2 st w3.
          solve_chain_body S u w0
            = (st, evs0 @ evs @ Generate (fst (hd (sv_models S))) prompt # evs2, w3)
          \<and> py_in ctx prompt"
    if g: "get_question_content S u w0 = (Some q, evs0, w)" and r: "pq_resources q = rs"
      and m: "sv_models S \<noteq> []" "0 < MAX_QUIZ_ATTEMPTS S"
  proof -
    let ?req = "\<lparr> llm_question = pq_question_text q, llm_context = ctx,
                   llm_expected_type = pq_expected_type q, llm_attempt_number = 1 \<rparr>"
    from solve_with_retries_starts [OF m, of u q ctx w']
    obtain sr evs2 w3 where
      s: "solve_with_retries S u q ctx w'
            = (sr, Generate (fst (hd (sv_models S))) (build_prompt ?req 0) # evs2, w3)"
      by blast
    have "\<exists>st. solve_chain_body S u w0
            = (st, evs0 @ evs @ Generate (fst (hd (sv_models S))) (build_prompt ?req 0) # evs2, w3)"
      using g r p s by (simp add: solve_chain_body_def split: sum.split option.split)
    moreover have "py_in ctx (build_prompt ?req 0)"
      using prompt_has_context [of ?req 0] by simp
    ultimately show ?thesis by blast
  qed
  then have i: "get_question_content S u w0 = (Some q, evs0, w) \<longrightarrow> pq_resources q = rs \<longrightarrow>
      sv_models S \<noteq> [] \<longrightarrow> 0 < MAX_QUIZ_ATTEMPTS S \<longrightarrow>
      (\<exists>prompt evs2 st w3.
         solve_chain_body S u w0
           = (st, evs0 @ evs @ Generate (fst (hd (sv_models S))) prompt # evs2, w3)
         \<and> py_in ctx prompt)"
    by blast
  show ?thesis
    by (rule exI [of _ ctx], rule exI [of _ evs], rule exI [of _ w']) (use p c i in blast)
qed

lemma sample_fetch_fails:
  "fetch_resource sample_env missing_csv hs w = (Inl (PyException ''404 Not Found''), w + 1)"
proof -
  have "py_in ''missing'' missing_csv" by code_simp
  then show ?thesis by (simp add: sample_env_def)
qed

lemma sample_fetch_succeeds:
  "fetch_resource sample_env data_json hs w = (Inr \<lparr> pr_content = ''values: 3, 7, 10'' \<rparr>, w + 1)"
proof -
  have "\<not> py_in ''missing'' data_json" by code_simp
  then show ?thesis by (simp add: sample_env_def)
qed

lemma sample_solver_get:
  "get_question_content sample_solver sample_url 0
     = (Some sample_question, [BrowserGet sample_url, FallbackGet sample_url], 2)"
  by (simp add: get_question_content_def sample_solver_def sample_env_def sample_question_def)

lemma sample_question_resources: "pq_resources sample_question = [missing_csv, data_json]"
  by (simp add: sample_question_def parse_page_content_def Let_def sample_parser_def
        missing_csv_def data_json_def)

theorem resource_isolation_witness:
  "missing_csv \<in> set [missing_csv, data_json] \<and> data_json \<in> set [missing_csv, data_json]
   \<and> (\<forall>hs w. \<exists>e w1. fetch_resource (sv_env sample_solver) missing_csv hs w = (Inl e, w1))
   \<and> (\<forall>hs w. \<exists>res w1. fetch_resource (sv_env sample_solver) data_json hs w = (Inr res, w1)
                        \<and> pr_content res = ''values: 3, 7, 10'')
   \<and> get_question_content sample_solver sample_url 0
       = (Some sample_question, [BrowserGet sample_url, FallbackGet sample_url], 2)
   \<and> (\<exists>ctx evs w'.
         process_resources sample_solver sample_url [missing_csv, data_json] 2 = (ctx, evs, w')
         \<and> py_in (''Content: '' @ ''values: 3, 7, 10'') ctx
         \<and> (\<exists>e. py_in (''Error fetching '' @ missing_csv @ '': '' @ message e) ctx)
         \<and> (\<exists>prompt evs2 st w3.
               solve_chain_body sample_solver sample_url 0
                 = (st, [BrowserGet sample_url, FallbackGet sample_url] @ evs
                        @ Generate ''gemini-2.0-flash-lite'' prompt # evs2, w3)
               \<and> py_in ctx prompt))"
proof -
  have e: "sv_env sample_solver = sample_env" by (simp add: sample_solver_def)
  have 1: "\<forall>hs w. \<exists>e w1. fetch_resource (sv_env sample_solver) missing_csv hs w = (Inl e, w1)"
    unfolding e using sample_fetch_fails by blast
  have 2: "\<forall>hs w. \<exists>res w1. fetch_resource (sv_env sample_solver) data_json hs w = (Inr res, w1)
                        \<and> pr_content res = ''values: 3, 7, 10''"
    unfolding e using sample_fetch_succeeds by (metis ProcessingResult.select_convs(1))
  have 3: "missing_csv \<in> set [missing_csv, data_json]" "data_json \<in> set [missing_csv, data_json]"
    by simp_all
  have m: "sv_models sample_solver \<noteq> []" "0 < MAX_QUIZ_ATTEMPTS sample_solver"
    "fst (hd (sv_models sample_solver)) = ''gemini-2.0-flash-lite''"
    by (simp_all add: sample_solver_def)
  show ?thesis
    using resource_isolation [OF 3 1 2, of sample_url 2 0 sample_question
        "[BrowserGet sample_url, FallbackGet sample_url]"]
      sample_solver_get sample_question_resources m 1 2
    by (simp only: simp_thms 3 m)
qed

end
